theory Spec2Isabelle
  imports Main "HOL-Library.Sublist"
begin

chapter \<open>The validation widgets and the edge proxy: model\<close>

text \<open>
  The repository holds a Cloudflare worker (\<^verbatim>\<open>cf-worker.js\<close>) and two browser
  widgets, an email validator and a WhatsApp number validator. This theory embeds the
  parts of them that decide the properties proved in the second chapter.

  JavaScript strings are modelled as \<^typ>\<open>string\<close>, one \<^typ>\<open>char\<close> per code unit
  (code units below 256). Times are \<^typ>\<open>int\<close> milliseconds, as \<^verbatim>\<open>Date.now()\<close> gives them.
\<close>

section \<open>Strings as JavaScript uses them\<close>

text \<open>\<^verbatim>\<open>\d\<close> of a regular expression without the unicode flag: the ten ASCII digits.\<close>

definition is_digit :: "char \<Rightarrow> bool" where
  "is_digit c = (48 \<le> (of_char c :: nat) \<and> (of_char c :: nat) \<le> 57)"

text \<open>The class \<^verbatim>\<open>[\d+]\<close>; \<^verbatim>\<open>replace(/[^\d+]/g, "")\<close> keeps exactly these.\<close>

definition phone_char :: "char \<Rightarrow> bool" where
  "phone_char c = (is_digit c \<or> c = CHR ''+'')"

definition strip_non_phone :: "string \<Rightarrow> string" where
  "strip_non_phone s = filter phone_char s"

text \<open>
  White space and line terminators that \<^verbatim>\<open>String.prototype.trim\<close> removes, among the
  code units below 256: tab, line feed, vertical tab, form feed, carriage return, space and
  the no-break space.
\<close>

definition is_space :: "char \<Rightarrow> bool" where
  "is_space c = (of_char c \<in> {9, 10, 11, 12, 13, 32, 160 :: nat})"

definition trim :: "string \<Rightarrow> string" where
  "trim s = rev (dropWhile is_space (rev (dropWhile is_space s)))"

definition startsWith :: "string \<Rightarrow> string \<Rightarrow> bool" where
  "startsWith s p = (take (length p) s = p)"

text \<open>\<^verbatim>\<open>s.includes(p)\<close>: \<open>p\<close> occurs in \<open>s\<close> as a contiguous run.\<close>

fun includes_str :: "string \<Rightarrow> string \<Rightarrow> bool" where
  "includes_str [] p = (p = [])"
| "includes_str (c # cs) p = (startsWith (c # cs) p \<or> includes_str cs p)"

section \<open>Phone number normalisation\<close>

text \<open>
  The values a field of a parsed JSON body can hold, as far as the worker looks at them.
  \<open>JOther s\<close> stands for any other truthy value (a non-zero number, an array, an
  object), given by the text \<^verbatim>\<open>String(v)\<close> yields for it.
\<close>

datatype jsval = JUndefined | JNull | JBool bool | JZero | JStr string | JOther string

fun truthy :: "jsval \<Rightarrow> bool" where
  "truthy JUndefined = False"
| "truthy JNull = False"
| "truthy (JBool b) = b"
| "truthy JZero = False"
| "truthy (JStr s) = (s \<noteq> [])"
| "truthy (JOther s) = True"

fun js_String :: "jsval \<Rightarrow> string" where
  "js_String JUndefined = ''undefined''"
| "js_String JNull = ''null''"
| "js_String (JBool b) = (if b then ''true'' else ''false'')"
| "js_String JZero = ''0''"
| "js_String (JStr s) = s"
| "js_String (JOther s) = s"

text \<open>\<^verbatim>\<open>formatPhoneNumber\<close> of the worker (cf-worker.js, lines 203 to 216).\<close>

definition formatPhoneNumber :: "jsval \<Rightarrow> jsval" where
  "formatPhoneNumber number =
     (if \<not> truthy number then JNull
      else let cleaned = strip_non_phone (trim (js_String number)) in
        if startsWith cleaned ''0'' then JStr (''+62'' @ drop 1 cleaned)
        else if startsWith cleaned ''62'' then JStr (''+'' @ cleaned)
        else if startsWith cleaned ''+'' then JStr cleaned
        else JStr (''+62'' @ cleaned))"

text \<open>\<^verbatim>\<open>PhoneFormatter.normalize\<close> of the WhatsApp widget (lines 1418 to 1434).\<close>

definition normalize :: "string \<Rightarrow> string" where
  "normalize phone =
     (let normalized = strip_non_phone phone in
        if startsWith normalized ''0'' then ''+62'' @ drop 1 normalized
        else if startsWith normalized ''62'' then ''+'' @ normalized
        else if \<not> startsWith normalized ''+'' \<and> 9 \<le> length normalized
                \<and> length normalized \<le> 13
          then ''+62'' @ normalized
        else normalized)"

text \<open>
  \<^verbatim>\<open>PhoneFormatter.format\<close> of the WhatsApp widget (lines 1396 to 1416): the digits of the
  value, in groups separated by a space. \<^verbatim>\<open>substring(a, b)\<close> stops at the end of the string;
  digits beyond the last group are dropped.
\<close>

definition substring :: "nat \<Rightarrow> nat \<Rightarrow> string \<Rightarrow> string" where
  "substring a b s = take (b - a) (drop a s)"

fun join :: "string list \<Rightarrow> string" where
  "join [] = []"
| "join [p] = p"
| "join (p # q # ps) = p @ '' '' @ join (q # ps)"

definition format :: "string \<Rightarrow> string" where
  "format v =
     (let cleaned = filter is_digit v in
        if startsWith cleaned ''62'' then
          join (filter (\<lambda>part. part \<noteq> [])
            [substring 0 2 cleaned, substring 2 5 cleaned, substring 5 9 cleaned,
             substring 9 13 cleaned])
        else if startsWith cleaned ''0'' then
          join (filter (\<lambda>part. part \<noteq> [])
            [substring 0 4 cleaned, substring 4 8 cleaned, substring 8 12 cleaned])
        else cleaned)"

section \<open>Browser storage and the result caches\<close>

text \<open>
  \<^verbatim>\<open>localStorage\<close> maps keys to strings. The caches store \<^verbatim>\<open>JSON.stringify\<close> of
  \<^verbatim>\<open>{result, expiry, timestamp}\<close> and read it back with \<^verbatim>\<open>JSON.parse\<close>; the model keeps
  the parsed form. \<open>Unparsable\<close> is a string on which \<^verbatim>\<open>JSON.parse\<close> throws or yields
  \<^verbatim>\<open>null\<close> (reading a field of it throws); \<open>Obj r e t\<close> is an object with the three
  fields, each \<open>None\<close> when absent. The list is in the order \<^verbatim>\<open>localStorage.key(i)\<close>
  enumerates; its keys are distinct.
\<close>

datatype stored = Unparsable | Obj "bool option" "int option" "int option"

type_synonym storage = "(string \<times> stored) list"

definition getItem :: "storage \<Rightarrow> string \<Rightarrow> stored option" where
  "getItem st k = map_of st k"

fun setItem :: "string \<Rightarrow> stored \<Rightarrow> storage \<Rightarrow> storage" where
  "setItem k v [] = [(k, v)]"
| "setItem k v (p # st) = (if fst p = k then (k, v) # st else p # setItem k v st)"

definition removeItem :: "string \<Rightarrow> storage \<Rightarrow> storage" where
  "removeItem k st = filter (\<lambda>p. fst p \<noteq> k) st"

record cache_config =
  SUCCESS_TTL :: int
  FAILURE_TTL :: int
  MAX_SIZE :: nat
  KEY_PREFIX :: string

text \<open>\<^verbatim>\<open>CONFIG.CACHE\<close> of the email widget (lines 12 to 17).\<close>

definition email_cache_config :: cache_config where
  "email_cache_config =
     \<lparr>SUCCESS_TTL = 600000, FAILURE_TTL = 300000, MAX_SIZE = 50, KEY_PREFIX = ''email_v_''\<rparr>"

text \<open>
  \<^verbatim>\<open>CONFIG.CACHE\<close> of the WhatsApp widget (lines 964 to 969): the two lifetimes come from
  the script tag's data attributes (\<open>None\<close> when absent); \<^verbatim>\<open>x || 600000\<close> replaces an
  absent or zero value.
\<close>

definition or_default :: "int option \<Rightarrow> int \<Rightarrow> int" where
  "or_default x d = (case x of None \<Rightarrow> d | Some v \<Rightarrow> if v = 0 then d else v)"

definition wa_cache_config :: "int option \<Rightarrow> int option \<Rightarrow> cache_config" where
  "wa_cache_config custom_success custom_failure =
     \<lparr>SUCCESS_TTL = or_default custom_success 600000,
      FAILURE_TTL = or_default custom_failure 300000,
      MAX_SIZE = 50, KEY_PREFIX = ''wa_v_''\<rparr>"

text \<open>
  The cache manager object: \<open>available\<close> is \<^verbatim>\<open>null\<close> until the first probe;
  \<open>cleanupScheduled\<close> exists in the WhatsApp widget only.
\<close>

record cache_manager =
  available :: "bool option"
  cleanupScheduled :: bool

definition new_cache_manager :: cache_manager where
  "new_cache_manager = \<lparr>available = None, cleanupScheduled = False\<rparr>"

text \<open>
  \<^verbatim>\<open>isAvailable\<close>: the first call writes and removes a test key; \<open>writable\<close> says whether
  \<^verbatim>\<open>localStorage.setItem\<close> succeeds (it throws when storage is disabled or full).
\<close>

definition isAvailable ::
  "string \<Rightarrow> bool \<Rightarrow> cache_manager \<Rightarrow> storage \<Rightarrow> bool \<times> cache_manager \<times> storage" where
  "isAvailable test writable m st =
     (case available m of
        Some a \<Rightarrow> (a, m, st)
      | None \<Rightarrow>
          if writable then (True, m\<lparr>available := Some True\<rparr>, removeItem test st)
          else (False, m\<lparr>available := Some False\<rparr>, st))"

text \<open>What \<^verbatim>\<open>get\<close> resolves to: \<^verbatim>\<open>null\<close>, \<^verbatim>\<open>undefined\<close> (an object without a result), or the result.\<close>

datatype cached = CNull | CUndefined | CValue bool

definition expired :: "int \<Rightarrow> int option \<Rightarrow> bool" where
  \<comment> \<open>\<^verbatim>\<open>now > data.expiry\<close>; false when the field is absent\<close>
  "expired now e = (case e of None \<Rightarrow> False | Some x \<Rightarrow> now > x)"

text \<open>
  \<^verbatim>\<open>CacheManager.get\<close> (email: lines 116 to 131, WhatsApp: lines 1133 to 1151; the two
  bodies are the same). \<open>now\<close> is what \<^verbatim>\<open>Date.now()\<close> returns.
\<close>

definition cache_get ::
  "cache_config \<Rightarrow> string \<Rightarrow> bool \<Rightarrow> int \<Rightarrow> string \<Rightarrow> cache_manager \<Rightarrow> storage
     \<Rightarrow> cached \<times> cache_manager \<times> storage" where
  "cache_get cfg test writable now subject m st =
     (case isAvailable test writable m st of (ok, m1, st1) \<Rightarrow>
        if \<not> ok then (CNull, m1, st1)
        else let key = KEY_PREFIX cfg @ subject in
          case getItem st1 key of
            None \<Rightarrow> (CNull, m1, st1)
          | Some Unparsable \<Rightarrow> (CNull, m1, st1)
          | Some (Obj r e t) \<Rightarrow>
              if expired now e then (CNull, m1, removeItem key st1)
              else (case r of None \<Rightarrow> CUndefined | Some v \<Rightarrow> CValue v, m1, st1))"

text \<open>
  The object \<^verbatim>\<open>set\<close> writes. \<^verbatim>\<open>Date.now()\<close> is read twice, for the expiry (\<open>now1\<close>) and
  for the timestamp (\<open>now2\<close>).
\<close>

definition cache_data :: "cache_config \<Rightarrow> bool \<Rightarrow> bool \<Rightarrow> int \<Rightarrow> int \<Rightarrow> stored" where
  "cache_data cfg result isSuccess now1 now2 =
     (let ttl = (if isSuccess then SUCCESS_TTL cfg else FAILURE_TTL cfg)
      in Obj (Some result) (Some (now1 + ttl)) (Some now2))"

text \<open>\<^verbatim>\<open>CacheManager.set\<close> of the email widget (lines 132 to 148): a failed write is ignored.\<close>

definition email_cache_set ::
  "bool \<Rightarrow> int \<Rightarrow> int \<Rightarrow> string \<Rightarrow> bool \<Rightarrow> bool \<Rightarrow> cache_manager \<Rightarrow> storage
     \<Rightarrow> cache_manager \<times> storage" where
  "email_cache_set writable now1 now2 email result isSuccess m st =
     (case isAvailable ''__email_test__'' writable m st of (ok, m1, st1) \<Rightarrow>
        if \<not> ok then (m1, st1)
        else if writable
          then (m1, setItem (KEY_PREFIX email_cache_config @ email)
                     (cache_data email_cache_config result isSuccess now1 now2) st1)
        else (m1, st1))"

text \<open>
  \<^verbatim>\<open>CacheManager.cleanup\<close> of the WhatsApp widget (lines 1189 to 1234). The keys with the
  prefix are collected first; the loop over them removes what is unparsable or expired;
  then, if more than \<^verbatim>\<open>MAX_SIZE\<close> keys were collected, they are sorted by timestamp (the
  sort is stable) and the first \<open>length - MAX_SIZE\<close> are removed. A key already removed by
  the loop reads as \<^verbatim>\<open>null\<close>, so its timestamp is taken as 0.
\<close>

definition prefixed_keys :: "string \<Rightarrow> storage \<Rightarrow> string list" where
  "prefixed_keys pre st = filter (\<lambda>k. startsWith k pre) (map fst st)"

definition remove_expired :: "int \<Rightarrow> storage \<Rightarrow> string \<Rightarrow> storage" where
  "remove_expired now st key =
     (case getItem st key of
        None \<Rightarrow> removeItem key st
      | Some Unparsable \<Rightarrow> removeItem key st
      | Some (Obj r e t) \<Rightarrow> if expired now e then removeItem key st else st)"

definition timestamp_of :: "storage \<Rightarrow> string \<Rightarrow> int" where
  \<comment> \<open>\<^verbatim>\<open>data.timestamp || 0\<close>, and 0 when reading the entry throws\<close>
  "timestamp_of st key =
     (case getItem st key of
        Some (Obj r e (Some t)) \<Rightarrow> t
      | _ \<Rightarrow> 0)"

definition cleanup :: "cache_config \<Rightarrow> bool \<Rightarrow> int \<Rightarrow> cache_manager \<Rightarrow> storage
     \<Rightarrow> cache_manager \<times> storage" where
  "cleanup cfg writable now m st =
     (case isAvailable ''__wa_test__'' writable m st of (ok, m1, st1) \<Rightarrow>
        if \<not> ok then (m1, st1)
        else let keys = prefixed_keys (KEY_PREFIX cfg) st1;
                 st2 = foldl (remove_expired now) st1 keys
          in if length keys > MAX_SIZE cfg
             then let items = sort_key snd (map (\<lambda>k. (k, timestamp_of st2 k)) keys);
                      toRemove = take (length items - MAX_SIZE cfg) items
                  in (m1, foldl (\<lambda>s item. removeItem (fst item) s) st2 toRemove)
             else (m1, st2))"

text \<open>
  \<^verbatim>\<open>CacheManager.set\<close> of the WhatsApp widget (lines 1153 to 1174). \<^verbatim>\<open>scheduleCleanup\<close>
  only raises the flag here; the scheduled callback is \<open>run_scheduled_cleanup\<close>, which
  the browser runs when idle. A failed write runs \<^verbatim>\<open>cleanup\<close> at once.
\<close>

definition wa_cache_set ::
  "cache_config \<Rightarrow> bool \<Rightarrow> int \<Rightarrow> int \<Rightarrow> int \<Rightarrow> string \<Rightarrow> bool \<Rightarrow> bool \<Rightarrow> cache_manager
     \<Rightarrow> storage \<Rightarrow> cache_manager \<times> storage" where
  "wa_cache_set cfg writable now1 now2 now3 phoneNumber result isSuccess m st =
     (case isAvailable ''__wa_test__'' writable m st of (ok, m1, st1) \<Rightarrow>
        if \<not> ok then (m1, st1)
        else let m2 = m1\<lparr>cleanupScheduled := True\<rparr> in
          if writable
          then (m2, setItem (KEY_PREFIX cfg @ phoneNumber)
                     (cache_data cfg result isSuccess now1 now2) st1)
          else cleanup cfg writable now3 m2 st1)"

definition run_scheduled_cleanup ::
  "cache_config \<Rightarrow> bool \<Rightarrow> int \<Rightarrow> cache_manager \<Rightarrow> storage \<Rightarrow> cache_manager \<times> storage" where
  "run_scheduled_cleanup cfg writable now m st =
     (case cleanup cfg writable now m st of (m1, st1) \<Rightarrow>
        (m1\<lparr>cleanupScheduled := False\<rparr>, st1))"

text \<open>
  An entry as \<^verbatim>\<open>set\<close> writes it (all three fields present) that has not expired at
  \<open>now\<close>; used to state what cleanup does to a cache of live entries.
\<close>

definition live_entry :: "int \<Rightarrow> storage \<Rightarrow> string \<Rightarrow> bool" where
  "live_entry now st key =
     (case getItem st key of
        Some (Obj (Some r) (Some e) (Some t)) \<Rightarrow> \<not> now > e
      | _ \<Rightarrow> False)"

text \<open>
  A cache filled by \<open>n\<close> calls of the WhatsApp \<^verbatim>\<open>set\<close>, one per millisecond from time 1
  on, for the numbers \<open>0811111111\<close>, \<open>08111111111\<close>, ... (an example used below).
\<close>

definition example_entry :: "nat \<Rightarrow> string \<times> stored" where
  "example_entry i =
     (''wa_v_081111111'' @ replicate i CHR ''1'',
      Obj (Some False) (Some (int i + 300000)) (Some (int i)))"

fun filled_cache :: "nat \<Rightarrow> cache_manager \<times> storage" where
  "filled_cache 0 = (new_cache_manager\<lparr>available := Some True\<rparr>, [])"
| "filled_cache (Suc n) =
     (case filled_cache n of (m, st) \<Rightarrow>
        wa_cache_set (wa_cache_config None None) True (int (Suc n)) (int (Suc n)) (int (Suc n))
          (''081111111'' @ replicate (Suc n) CHR ''1'') False False m st)"

text \<open>
  A cache filled by \<open>n\<close> calls of the email \<^verbatim>\<open>set\<close>, one per millisecond from time 1 on,
  for the addresses \<open>a@x.com\<close>, \<open>aa@x.com\<close>, ... with the result \<^verbatim>\<open>true\<close> (an example
  used below).
\<close>

definition email_example :: "nat \<Rightarrow> string \<times> stored" where
  "email_example i =
     (''email_v_'' @ replicate i CHR ''a'' @ ''@x.com'',
      Obj (Some True) (Some (int i + 600000)) (Some (int i)))"

fun email_filled :: "nat \<Rightarrow> cache_manager \<times> storage" where
  "email_filled 0 = (new_cache_manager\<lparr>available := Some True\<rparr>, [])"
| "email_filled (Suc n) =
     (case email_filled n of (m, st) \<Rightarrow>
        email_cache_set True (int (Suc n)) (int (Suc n)) (replicate (Suc n) CHR ''a'' @ ''@x.com'')
          True True m st)"

section \<open>The validation queue\<close>

text \<open>
  \<^verbatim>\<open>QueueManager\<close> (email: lines 152 to 188, WhatsApp: lines 1315 to 1361). The two
  classes have the same code; the WhatsApp one names the key \<^verbatim>\<open>phoneNumber\<close> and adds a
  \<^verbatim>\<open>timestamp\<close> to each entry that nothing reads. An entry holds the subject value and
  the job's callback \<open>'j\<close>.
\<close>

record 'j item =
  subject :: string
  callback :: 'j

record 'j queue_manager =
  queue :: "'j item list"
  activeCount :: int

definition new_queue_manager :: "'j queue_manager" where
  "new_queue_manager = \<lparr>queue = [], activeCount = 0\<rparr>"

definition QUEUE_MAX_SIZE :: nat where "QUEUE_MAX_SIZE = 5"

definition MAX_CONCURRENT :: int where "MAX_CONCURRENT = 2"

text \<open>\<^verbatim>\<open>findIndex\<close> and \<^verbatim>\<open>splice(index, 1)\<close>: the first entry for the value is removed.\<close>

fun remove_first :: "string \<Rightarrow> 'j item list \<Rightarrow> 'j item list" where
  "remove_first v [] = []"
| "remove_first v (i # is) = (if subject i = v then is else i # remove_first v is)"

definition cancel :: "string \<Rightarrow> 'j queue_manager \<Rightarrow> 'j queue_manager" where
  "cancel v q = (if v = ''all'' then q\<lparr>queue := []\<rparr> else q\<lparr>queue := remove_first v (queue q)\<rparr>)"

text \<open>
  \<^verbatim>\<open>process\<close> pops the last entry and calls its callback; the model returns the entry
  dispatched, if any. The callback receives the function \<open>job_done\<close> below.
\<close>

definition process :: "'j queue_manager \<Rightarrow> 'j queue_manager \<times> 'j item option" where
  "process q =
     (if activeCount q \<ge> MAX_CONCURRENT \<or> queue q = [] then (q, None)
      else (q\<lparr>queue := butlast (queue q), activeCount := activeCount q + 1\<rparr>,
            Some (last (queue q))))"

definition add :: "string \<Rightarrow> 'j \<Rightarrow> 'j queue_manager \<Rightarrow> 'j queue_manager \<times> 'j item option" where
  "add v cb q =
     (let q1 = cancel v q in
        if length (queue q1) < QUEUE_MAX_SIZE
        then process (q1\<lparr>queue := queue q1 @ [\<lparr>subject = v, callback = cb\<rparr>]\<rparr>)
        else (q1, None))"

text \<open>The completion callback handed to a job: \<^verbatim>\<open>this.activeCount--; this.process()\<close>.\<close>

definition job_done :: "'j queue_manager \<Rightarrow> 'j queue_manager \<times> 'j item option" where
  "job_done q = process (q\<lparr>activeCount := activeCount q - 1\<rparr>)"

text \<open>
  The queue in use: besides the manager, the jobs whose callback has been called and
  that have not yet called their completion callback. A job calls it once (the email job
  in a \<^verbatim>\<open>finally\<close>, the WhatsApp job at the end of each path).
\<close>

record 'j queue_sys =
  qm :: "'j queue_manager"
  running :: "'j item list"

datatype 'j queue_event = Add string 'j | Cancel string | Complete nat

definition init_queue_sys :: "'j queue_sys" where
  "init_queue_sys = \<lparr>qm = new_queue_manager, running = []\<rparr>"

definition dispatched :: "'j queue_sys \<Rightarrow> 'j queue_manager \<times> 'j item option \<Rightarrow> 'j queue_sys" where
  "dispatched s r =
     (case r of (q, d) \<Rightarrow>
        s\<lparr>qm := q, running := (case d of None \<Rightarrow> running s | Some i \<Rightarrow> running s @ [i])\<rparr>)"

fun queue_step :: "'j queue_sys \<Rightarrow> 'j queue_event \<Rightarrow> 'j queue_sys" where
  "queue_step s (Add v cb) = dispatched s (add v cb (qm s))"
| "queue_step s (Cancel v) = s\<lparr>qm := cancel v (qm s)\<rparr>"
| "queue_step s (Complete k) =
     (if k < length (running s)
      then dispatched (s\<lparr>running := take k (running s) @ drop (Suc k) (running s)\<rparr>)
             (job_done (qm s))
      else s)"

definition queue_run :: "'j queue_event list \<Rightarrow> 'j queue_sys" where
  "queue_run evs = foldl queue_step init_queue_sys evs"

text \<open>What holds of the queue after any sequence of events.\<close>

definition queue_inv :: "'j queue_sys \<Rightarrow> bool" where
  "queue_inv s =
     (length (queue (qm s)) \<le> QUEUE_MAX_SIZE
      \<and> activeCount (qm s) = int (length (running s))
      \<and> length (running s) \<le> 2
      \<and> distinct (map subject (queue (qm s))))"

section \<open>The edge proxy\<close>

text \<open>
  \<^verbatim>\<open>cf-worker.js\<close>. A request is given by its method, the headers the worker reads
  (\<open>None\<close> when absent) and the text of its body.
\<close>

record request =
  http_method :: string
  cf_connecting_ip :: "string option"
  x_forwarded_for :: "string option"
  origin_header :: "string option"
  content_type :: "string option"
  body_text :: string

text \<open>
  What the worker needs of the JavaScript engine, taken as parameters: \<^verbatim>\<open>JSON.parse\<close>
  (\<open>Inl\<close> the message of the \<^verbatim>\<open>SyntaxError\<close>), reading the property \<^verbatim>\<open>number\<close> of a
  parsed value (\<open>Inl\<close> the message of the \<^verbatim>\<open>TypeError\<close> thrown when the value is
  \<^verbatim>\<open>null\<close>; \<open>JUndefined\<close> when the property is absent), and the message of the error
  \<^verbatim>\<open>new Response\<close> throws when given a body together with a null-body status.
\<close>

record 'd engine =
  JSON_parse :: "string \<Rightarrow> string + 'd"
  number_of :: "'d \<Rightarrow> string + jsval"
  null_body_message :: string

text \<open>
  The KV namespace of the rate limiter: the counters it holds (the worker writes a
  counter with \<^verbatim>\<open>toString\<close> and reads it with \<^verbatim>\<open>parseInt\<close>; the model keeps the number),
  and whether its reads and writes throw.
\<close>

record kv =
  cells :: "string \<Rightarrow> nat option"
  reads_fail :: bool
  writes_fail :: bool

record env =
  TEST_LIMITER :: "kv option"
  STARSENDER_DEVICE_KEY :: "string option"

text \<open>
  What the call to the upstream API meets: the abort after 8 seconds, a \<^verbatim>\<open>fetch\<close> that
  rejects with a message, or a response with its status, status text and body text.
\<close>

datatype upstream = Aborted | FetchFailed string | Responded nat string string

datatype 'd body =
    NoBody
  | Failure string
  | MethodNotAllowed string
  | RateLimited
  | ErrorReport string string
  | Data 'd

record 'd response =
  status :: nat
  body :: "'d body"
  allow_origin :: string

definition PER_MINUTE :: nat where "PER_MINUTE = 10"

definition WINDOW_MINUTE :: nat where "WINDOW_MINUTE = 60"

definition WHITELISTED_IPS :: "string list" where "WHITELISTED_IPS = []"

definition json_response :: "'d body \<Rightarrow> nat \<Rightarrow> string \<Rightarrow> 'd response" where
  "json_response b s origin = \<lparr>status = s, body = b, allow_origin = origin\<rparr>"

definition preflight :: "string \<Rightarrow> 'd response" where
  "preflight origin = \<lparr>status = 204, body = NoBody, allow_origin = origin\<rparr>"

text \<open>\<^verbatim>\<open>a || b\<close> on header values: an absent or empty value is falsy.\<close>

definition or_else :: "string option \<Rightarrow> string \<Rightarrow> string" where
  "or_else h d = (case h of None \<Rightarrow> d | Some v \<Rightarrow> if v = [] then d else v)"

definition getClientIP :: "request \<Rightarrow> string" where
  "getClientIP req =
     (case cf_connecting_ip req of
        Some v \<Rightarrow>
          if v \<noteq> [] then v
          else or_else (map_option (\<lambda>x. trim (takeWhile (\<lambda>c. c \<noteq> CHR '','') x))
                          (x_forwarded_for req)) ''unknown''
      | None \<Rightarrow>
          or_else (map_option (\<lambda>x. trim (takeWhile (\<lambda>c. c \<noteq> CHR '','') x))
                     (x_forwarded_for req)) ''unknown'')"

text \<open>Decimal digits of a number, as template strings render it.\<close>

fun decimal :: "nat \<Rightarrow> string" where
  "decimal n =
     (if n < 10 then [char_of (48 + n)]
      else decimal (n div 10) @ [char_of (48 + n mod 10)])"

declare decimal.simps [simp del]

text \<open>\<^verbatim>\<open>getCount\<close>, \<^verbatim>\<open>incrementCounter\<close> and \<^verbatim>\<open>checkRateLimit\<close> (lines 140 to 200).\<close>

definition getCount :: "kv \<Rightarrow> string \<Rightarrow> nat" where
  "getCount rl key =
     (if reads_fail rl then 0 else case cells rl key of None \<Rightarrow> 0 | Some n \<Rightarrow> n)"

definition incrementCounter :: "kv \<Rightarrow> string \<Rightarrow> nat \<times> kv" where
  "incrementCounter rl key =
     (let newValue = getCount rl key + 1 in
        if writes_fail rl then (1, rl)
        else (newValue, rl\<lparr>cells := (cells rl)(key \<mapsto> newValue)\<rparr>))"

definition rate_key :: "string \<Rightarrow> nat \<Rightarrow> string" where
  "rate_key clientIP now =
     ''rate_minute_'' @ clientIP @ ''_'' @ decimal (now div (WINDOW_MINUTE * 1000))"

definition checkRateLimit :: "string \<Rightarrow> kv \<Rightarrow> nat \<Rightarrow> bool \<times> kv" where
  "checkRateLimit clientIP rl now =
     (let minuteKey = rate_key clientIP now; currentCount = getCount rl minuteKey in
        if currentCount \<ge> PER_MINUTE then (False, rl)
        else (True, snd (incrementCounter rl minuteKey)))"

text \<open>\<^verbatim>\<open>parseRequestBody\<close> (lines 219 to 260): \<open>Inl\<close> the error object's message.\<close>

definition parseRequestBody :: "'d engine \<Rightarrow> request \<Rightarrow> string + 'd" where
  "parseRequestBody E req =
     (let contentType = or_else (content_type req) '''' in
        if \<not> includes_str contentType ''application/json''
          then Inl ''Content-Type must be application/json''
        else if body_text req = [] then Inl ''Empty request body''
        else case JSON_parse E (body_text req) of
               Inl e \<Rightarrow> Inl ''Invalid JSON in request body''
             | Inr b \<Rightarrow> Inr b)"

text \<open>
  \<^verbatim>\<open>callStarsenderAPI\<close> (lines 263 to 308): \<open>Inl\<close> the message of the error it throws,
  \<open>Inr\<close> the parsed data and the status.
\<close>

definition response_ok :: "nat \<Rightarrow> bool" where
  "response_ok s = (200 \<le> s \<and> s \<le> 299)"

definition callStarsenderAPI :: "'d engine \<Rightarrow> upstream \<Rightarrow> string + ('d \<times> nat)" where
  "callStarsenderAPI E up =
     (case up of
        Aborted \<Rightarrow> Inl ''API timeout after 8 seconds''
      | FetchFailed m \<Rightarrow> Inl m
      | Responded s statusText responseText \<Rightarrow>
          if \<not> response_ok s
            then Inl (''API responded with '' @ decimal s @ '': '' @ statusText)
          else if includes_str responseText ''<html'' \<or> includes_str responseText ''<!DOCTYPE''
            then Inl ''Received HTML instead of JSON''
          else case JSON_parse E responseText of
                 Inl e \<Rightarrow> Inl e
               | Inr d \<Rightarrow> Inr (d, s))"

text \<open>The \<^verbatim>\<open>catch\<close> of \<^verbatim>\<open>processValidation\<close> (lines 373 to 400).\<close>

definition error_response :: "string \<Rightarrow> string \<Rightarrow> 'd response" where
  "error_response message origin =
     (if includes_str message ''timeout''
        then json_response (ErrorReport ''WhatsApp API request timed out'' message) 504 origin
      else if includes_str message ''fetch'' \<or> includes_str message ''API''
        then json_response (ErrorReport ''Failed to connect to WhatsApp API'' message) 502 origin
      else if includes_str message ''HTML''
        then json_response (ErrorReport ''WhatsApp API service error'' message) 502 origin
      else json_response (ErrorReport ''Internal server error'' message) 500 origin)"

text \<open>
  \<^verbatim>\<open>new Response(body, {status})\<close> throws when the status is one that allows no body;
  of those only 204 and 205 can reach it here.
\<close>

definition null_body_status :: "nat \<Rightarrow> bool" where
  "null_body_status s = (s = 101 \<or> s = 204 \<or> s = 205 \<or> s = 304)"

text \<open>
  \<^verbatim>\<open>processValidation\<close> (lines 310 to 401). \<open>upstream\<close> gives what the call meets for a
  phone number and a key.
\<close>

definition processValidation ::
  "'d engine \<Rightarrow> env \<Rightarrow> (string \<Rightarrow> string \<Rightarrow> upstream) \<Rightarrow> request \<Rightarrow> string \<Rightarrow> 'd response" where
  "processValidation E e upstream req origin =
     (case parseRequestBody E req of
        Inl message \<Rightarrow> json_response (Failure message) 400 origin
      | Inr b \<Rightarrow>
          (case number_of E b of
             Inl thrown \<Rightarrow> error_response thrown origin
           | Inr number \<Rightarrow>
               if \<not> truthy number
                 then json_response (Failure ''Phone number is required'') 400 origin
               else (case formatPhoneNumber number of
                  JStr phoneNumber \<Rightarrow>
                    if phoneNumber = []
                      then json_response (Failure ''Invalid phone number format'') 400 origin
                    else (case STARSENDER_DEVICE_KEY e of
                       None \<Rightarrow>
                         json_response
                           (Failure ''Server misconfiguration: API key missing'') 500 origin
                     | Some apiKey \<Rightarrow>
                         if apiKey = []
                           then json_response
                                  (Failure ''Server misconfiguration: API key missing'') 500 origin
                         else (case callStarsenderAPI E (upstream phoneNumber apiKey) of
                            Inl thrown \<Rightarrow> error_response thrown origin
                          | Inr (d, s) \<Rightarrow>
                              if null_body_status s
                                then error_response (null_body_message E) origin
                              else json_response (Data d) s origin))
                | _ \<Rightarrow> json_response (Failure ''Invalid phone number format'') 400 origin)))"

text \<open>
  \<^verbatim>\<open>handleRequest\<close> (lines 62 to 137), returning the response and the KV namespace as
  the rate check leaves it. The violation log written after a refusal goes to keys of
  its own and is left out. \<open>now\<close> is \<^verbatim>\<open>Date.now()\<close>.
\<close>

definition handleRequest ::
  "'d engine \<Rightarrow> env \<Rightarrow> (string \<Rightarrow> string \<Rightarrow> upstream) \<Rightarrow> nat \<Rightarrow> request
     \<Rightarrow> 'd response \<times> kv option" where
  "handleRequest E e upstream now req =
     (let clientIP = getClientIP req; origin = or_else (origin_header req) ''*'' in
        if http_method req = ''OPTIONS'' then (preflight origin, TEST_LIMITER e)
        else if http_method req \<noteq> ''POST''
          then (json_response (MethodNotAllowed (http_method req)) 405 origin, TEST_LIMITER e)
        else if clientIP \<in> set WHITELISTED_IPS
          then (processValidation E e upstream req origin, TEST_LIMITER e)
        else case TEST_LIMITER e of
               None \<Rightarrow> (processValidation E e upstream req origin, None)
             | Some rl \<Rightarrow>
                 (case checkRateLimit clientIP rl now of
                    (allowed, rl') \<Rightarrow>
                      if \<not> allowed then (json_response RateLimited 200 origin, Some rl')
                      else (processValidation E e upstream req origin, Some rl')))"

text \<open>
  For stating what the proxy answers: whether the rate gate refuses a request, the status
  the \<^verbatim>\<open>catch\<close> of \<^verbatim>\<open>processValidation\<close> gives an error message, the status that
  results from what the upstream call meets, and the phone number and key sent upstream.
\<close>

definition rate_refused :: "env \<Rightarrow> request \<Rightarrow> nat \<Rightarrow> bool" where
  "rate_refused e req now =
     (case TEST_LIMITER e of
        None \<Rightarrow> False
      | Some rl \<Rightarrow> getCount rl (rate_key (getClientIP req) now) \<ge> PER_MINUTE)"

definition error_status :: "string \<Rightarrow> nat" where
  "error_status message =
     (if includes_str message ''timeout'' then 504
      else if includes_str message ''fetch'' \<or> includes_str message ''API''
              \<or> includes_str message ''HTML'' then 502
      else 500)"

definition upstream_status :: "'d engine \<Rightarrow> upstream \<Rightarrow> nat" where
  "upstream_status E up =
     (case up of
        Aborted \<Rightarrow> 504
      | FetchFailed m \<Rightarrow> error_status m
      | Responded s statusText responseText \<Rightarrow>
          if \<not> response_ok s
            then error_status (''API responded with '' @ decimal s @ '': '' @ statusText)
          else if includes_str responseText ''<html''
                  \<or> includes_str responseText ''<!DOCTYPE'' then 502
          else (case JSON_parse E responseText of
                  Inl m \<Rightarrow> error_status m
                | Inr d \<Rightarrow>
                    if null_body_status s then error_status (null_body_message E) else s))"

definition key_missing :: "env \<Rightarrow> bool" where
  "key_missing e = (case STARSENDER_DEVICE_KEY e of None \<Rightarrow> True | Some k \<Rightarrow> k = [])"

definition sent_number :: "jsval \<Rightarrow> string" where
  "sent_number number = (case formatPhoneNumber number of JStr p \<Rightarrow> p | _ \<Rightarrow> [])"

definition api_key :: "env \<Rightarrow> string" where
  "api_key e = (case STARSENDER_DEVICE_KEY e of None \<Rightarrow> [] | Some k \<Rightarrow> k)"

text \<open>
  An engine for the examples: it parses three texts (an object with a phone number, the
  empty object and \<^verbatim>\<open>null\<close>) and rejects every other; a parsed value is \<open>None\<close> for
  \<^verbatim>\<open>null\<close> and otherwise the value of its property \<^verbatim>\<open>number\<close>.
\<close>

definition example_engine :: "jsval option engine" where
  \<open>example_engine =
     \<lparr>JSON_parse = (\<lambda>s. if s = ''{"number":"081234567890"}'' then Inr (Some (JStr ''081234567890''))
                        else if s = ''{}'' then Inr (Some JUndefined)
                        else if s = ''null'' then Inr None
                        else Inl ''Unexpected token''),
      number_of = (\<lambda>d. case d of None \<Rightarrow> Inl ''Cannot read properties of null''
                             | Some v \<Rightarrow> Inr v),
      null_body_message = ''Response with null body status cannot have body''\<rparr>\<close>

definition example_request :: "string \<Rightarrow> string \<Rightarrow> string \<Rightarrow> request" where
  "example_request m ct text =
     \<lparr>http_method = m, cf_connecting_ip = Some ''203.0.113.7'', x_forwarded_for = None,
      origin_header = None, content_type = Some ct, body_text = text\<rparr>"

definition example_env :: "nat \<Rightarrow> env" where
  "example_env n =
     \<lparr>TEST_LIMITER =
        Some \<lparr>cells = (\<lambda>k. if k = ''rate_minute_203.0.113.7_0'' then Some n else None),
              reads_fail = False, writes_fail = False\<rparr>,
      STARSENDER_DEVICE_KEY = Some ''key''\<rparr>"

section \<open>The WhatsApp validator\<close>

text \<open>
  \<^verbatim>\<open>WhatsAppValidator\<close> and the objects it owns (lines 1082 to 2991). The page is taken
  to hold the phone input, the submit button and their wrappers, so that the element
  lookups succeed. An \<^verbatim>\<open>await\<close> on the cache is taken together with the code after it:
  no event of the page runs between the two.
\<close>

subsection \<open>Configuration\<close>

record wa_config =
  MIN_PHONE_LENGTH :: nat
  RETRY_DELAYS :: "int list"
  TIMEOUTS :: "int list"
  MAX_REQUESTS :: nat
  TIME_WINDOW :: int
  CACHE :: cache_config
  ERROR_INPUT :: string
  ERROR_SUBMIT :: string
  RATE_LIMIT_MESSAGE :: string

text \<open>The defaults of \<^verbatim>\<open>CONFIG\<close> (lines 951 to 977), used when the script tag sets nothing.\<close>

definition default_wa_config :: wa_config where
  "default_wa_config =
     \<lparr>MIN_PHONE_LENGTH = 10, RETRY_DELAYS = [3000, 5000], TIMEOUTS = [10000, 7000, 5000],
      MAX_REQUESTS = 20, TIME_WINDOW = 60000, CACHE = wa_cache_config None None,
      ERROR_INPUT = ''No. WhatsApp yang Anda masukkan salah'',
      ERROR_SUBMIT = ''Perbaiki nomor WhatsApp sebelum submit!'',
      RATE_LIMIT_MESSAGE = ''Terlalu banyak percobaan validasi. Silakan tunggu sebentar.''\<rparr>"

text \<open>\<^verbatim>\<open>list[i]\<close>: \<^verbatim>\<open>undefined\<close> beyond the end.\<close>

definition index :: "'a list \<Rightarrow> nat \<Rightarrow> 'a option" where
  "index xs i = (if i < length xs then Some (xs ! i) else None)"

subsection \<open>State\<close>

datatype controller = AbortController

text \<open>\<^verbatim>\<open>this.state\<close> (lines 1675 to 1688).\<close>

record wa_state =
  domModified :: bool
  firstInteraction :: bool
  debounceTimer :: bool
  lastCheckedNumber :: string
  validationState :: "bool option"
  originalButton_disabled :: bool
  failsafeMode :: bool
  retryController :: "controller option"
  isRetrying :: bool
  actualValue :: string
  isFormatted :: bool

datatype icon_type = IconNone | IconLoading | IconSuccess

datatype button_action = Enable | Disable | Clear

text \<open>
  What the page shows: the input's value and whether the input has the focus, the icon
  in the input, the message under it (\<open>None\<close> when hidden), the two border classes, the
  submit button and its message, and whether an error message of the page's own is
  visible.
\<close>

record wa_ui =
  input_value :: string
  focused :: bool
  icon :: icon_type
  message :: "string option"
  border_red :: bool
  border_green :: bool
  submit_disabled :: bool
  button_message :: bool
  other_error :: bool

text \<open>
  The closures handed to \<^verbatim>\<open>DOMBatcher.schedule\<close>, by the method that builds them:
  \<^verbatim>\<open>updateUI\<close> (with the \<^verbatim>\<open>hasOtherError\<close> it computed), \<^verbatim>\<open>updateInputIcon\<close>,
  \<^verbatim>\<open>updateSubmitButton\<close>, \<^verbatim>\<open>activateFailsafe\<close>, and the submit error message of
  \<^verbatim>\<open>showValidationError\<close> and \<^verbatim>\<open>handleKeypress\<close>.
\<close>

datatype dom_update =
    UIUpdate "bool option" string bool bool
  | IconUpdate icon_type
  | SubmitUpdate button_action
  | FailsafeUpdate
  | SubmitErrorUpdate

datatype quality = Poor | Moderate | Good

text \<open>
  A run of \<^verbatim>\<open>validateWhatsApp\<close> that is waiting: the raw value it read, the normalised
  phone number, its attempt number, and whether it holds a completion callback of the
  queue.
\<close>

record wa_job =
  rawValue :: string
  phone :: string
  attempt :: nat
  onComplete :: bool

text \<open>A network call of \<^verbatim>\<open>executeRequest\<close> that has not settled.\<close>

record net_request =
  req_phone :: string
  req_attempt :: nat
  req_timeout :: int

text \<open>
  The validator with everything it owns, and the waiting activities: the network calls
  in flight, the runs awaiting them, and the retry timers with their delay
  (\<open>None\<close> for \<^verbatim>\<open>undefined\<close>).
\<close>

record wa_sys =
  config :: wa_config
  state :: wa_state
  ui :: wa_ui
  updateQueue :: "dom_update list"
  queueManager :: "unit queue_manager"
  activeRequests :: "string list"
  rate_requests :: "int list"
  cacheManager :: cache_manager
  localStorage :: storage
  storage_writable :: bool
  errors :: nat
  recovery_timers :: nat
  online :: bool
  connectionQuality :: quality
  budget_ok :: bool
  requestCount :: nat
  lastRequestReset :: int
  requests :: "net_request list"
  awaiting :: "wa_job list"
  retry_timers :: "(wa_job \<times> int option) list"
  rejected :: nat

text \<open>
  The validator as constructed at time \<open>now\<close>, on a page whose input is empty, with what
  browser storage holds.
\<close>

definition new_wa_sys :: "wa_config \<Rightarrow> bool \<Rightarrow> storage \<Rightarrow> int \<Rightarrow> wa_sys" where
  "new_wa_sys cfg button_disabled stored_before now =
     \<lparr>config = cfg,
      state = \<lparr>domModified = False, firstInteraction = False, debounceTimer = False,
               lastCheckedNumber = [], validationState = None,
               originalButton_disabled = False, failsafeMode = False,
               retryController = None, isRetrying = False,
               actualValue = [], isFormatted = False\<rparr>,
      ui = \<lparr>input_value = [], focused = False, icon = IconNone, message = None, border_red = False,
            border_green = False, submit_disabled = button_disabled, button_message = False,
            other_error = False\<rparr>,
      updateQueue = [], queueManager = new_queue_manager, activeRequests = [],
      rate_requests = [], cacheManager = new_cache_manager, localStorage = stored_before,
      storage_writable = True, errors = 0, recovery_timers = 0, online = True,
      connectionQuality = Good, budget_ok = True, requestCount = 0, lastRequestReset = now,
      requests = [], awaiting = [], retry_timers = [], rejected = 0\<rparr>"

subsection \<open>The batched updates of the page\<close>

text \<open>\<^verbatim>\<open>DOMBatcher.schedule\<close> (lines 1370 to 1376).\<close>

definition schedule :: "dom_update \<Rightarrow> wa_sys \<Rightarrow> wa_sys" where
  "schedule u s = s\<lparr>updateQueue := updateQueue s @ [u]\<rparr>"

text \<open>\<^verbatim>\<open>updateInputIcon\<close> and \<^verbatim>\<open>updateSubmitButton\<close> up to their call of \<^verbatim>\<open>schedule\<close>.\<close>

definition updateInputIcon :: "icon_type \<Rightarrow> wa_sys \<Rightarrow> wa_sys" where
  "updateInputIcon t s = (if \<not> domModified (state s) then s else schedule (IconUpdate t) s)"

definition updateSubmitButton :: "button_action \<Rightarrow> wa_sys \<Rightarrow> wa_sys" where
  "updateSubmitButton a s = (if \<not> domModified (state s) then s else schedule (SubmitUpdate a) s)"

text \<open>
  \<^verbatim>\<open>updateUI\<close> (lines 2712 to 2737): before the first interaction it only stores the
  status (\<open>verdict\<close>); afterwards it computes \<^verbatim>\<open>hasOtherError\<close> and schedules the update.
\<close>

definition updateUI :: "bool option \<Rightarrow> string \<Rightarrow> bool \<Rightarrow> wa_sys \<Rightarrow> wa_sys" where
  "updateUI verdict msg isLoading s =
     (if \<not> domModified (state s) then s\<lparr>state := (state s)\<lparr>validationState := verdict\<rparr>\<rparr>
      else schedule (UIUpdate verdict msg isLoading (other_error (ui s))) s)"

text \<open>\<^verbatim>\<open>activateFailsafe\<close> (lines 2339 to 2374): the flag is raised at once, the rest is scheduled.\<close>

definition activateFailsafe :: "wa_sys \<Rightarrow> wa_sys" where
  "activateFailsafe s = schedule FailsafeUpdate (s\<lparr>state := (state s)\<lparr>failsafeMode := True\<rparr>\<rparr>)"

text \<open>\<^verbatim>\<open>handleValidationResult\<close> (lines 2329 to 2337).\<close>

definition handleValidationResult :: "bool \<Rightarrow> string \<Rightarrow> wa_sys \<Rightarrow> wa_sys" where
  "handleValidationResult isRegistered ph s =
     (let s1 = (if isRegistered then updateUI (Some True) ''WhatsApp aktif!'' False s
                else updateUI (Some False) (ERROR_INPUT (config s)) False s)
      in s1\<lparr>state := (state s1)\<lparr>lastCheckedNumber := ph,
                                   validationState := Some isRegistered\<rparr>\<rparr>)"

text \<open>
  Running one scheduled closure. The bodies are those of the closures in \<^verbatim>\<open>updateUI\<close>
  (lines 2737 to 2814), \<^verbatim>\<open>updateInputIcon\<close> (2605 to 2644), \<^verbatim>\<open>updateSubmitButton\<close>
  (2659 to 2709), \<^verbatim>\<open>activateFailsafe\<close> (2347 to 2373) and \<^verbatim>\<open>showValidationError\<close>
  (2072 to 2081). What they schedule in turn goes to the queue of the next frame.
\<close>

definition set_ui :: "(wa_ui \<Rightarrow> wa_ui) \<Rightarrow> wa_sys \<Rightarrow> wa_sys" where
  "set_ui f s = s\<lparr>ui := f (ui s)\<rparr>"

definition set_validationState :: "bool option \<Rightarrow> wa_sys \<Rightarrow> wa_sys" where
  "set_validationState v s = s\<lparr>state := (state s)\<lparr>validationState := v\<rparr>\<rparr>"

fun run_update :: "dom_update \<Rightarrow> wa_sys \<Rightarrow> wa_sys" where
  "run_update (UIUpdate verdict msg isLoading hasOtherError) s =
     (if hasOtherError \<and> \<not> isLoading then
        (let s1 = updateInputIcon IconNone (set_ui (\<lambda>u. u\<lparr>message := None\<rparr>) s)
         in if validationState (state s1) = Some False then updateSubmitButton Disable s1 else s1)
      else
        (let s1 = set_ui (\<lambda>u. u\<lparr>border_green := False\<rparr>) s in
           if isLoading then
             set_ui (\<lambda>u. u\<lparr>message := None\<rparr>) (updateInputIcon IconLoading s1)
           else if verdict = Some True then
             updateSubmitButton Enable
               (set_validationState (Some True)
                 (set_ui (\<lambda>u. u\<lparr>message := None\<rparr>)
                   (updateInputIcon IconSuccess (set_ui (\<lambda>u. u\<lparr>border_red := False\<rparr>) s1))))
           else if verdict = Some False then
             updateSubmitButton Disable
               (set_validationState (Some False)
                 (set_ui (\<lambda>u. u\<lparr>message :=
                            Some (if msg = [] then ERROR_INPUT (config s) else msg)\<rparr>)
                   (updateInputIcon IconNone
                     (set_ui (\<lambda>u. u\<lparr>border_red := True, border_green := False\<rparr>) s1))))
           else
             (let s2 = set_ui (\<lambda>u. u\<lparr>message := None\<rparr>) (updateInputIcon IconNone s1)
              in if trim (input_value (ui s2)) = [] then updateSubmitButton Clear s2 else s2)))"
| "run_update (IconUpdate t) s = set_ui (\<lambda>u. u\<lparr>icon := t\<rparr>) s"
| "run_update (SubmitUpdate Enable) s =
     set_ui (\<lambda>u. u\<lparr>submit_disabled := originalButton_disabled (state s),
                    button_message := False\<rparr>) s"
| "run_update (SubmitUpdate Disable) s =
     set_ui (\<lambda>u. u\<lparr>submit_disabled := True, button_message := True\<rparr>) s"
| "run_update (SubmitUpdate Clear) s =
     (if validationState (state s) \<noteq> Some False
      then set_ui (\<lambda>u. u\<lparr>button_message := False\<rparr>) s else s)"
| "run_update FailsafeUpdate s =
     set_ui (\<lambda>u. u\<lparr>button_message := False\<rparr>)
       (updateSubmitButton Enable
         (set_validationState None
           (updateInputIcon IconNone
             (set_ui (\<lambda>u. u\<lparr>border_red := False, border_green := False, message := None\<rparr>) s))))"
| "run_update SubmitErrorUpdate s =
     set_ui (\<lambda>u. u\<lparr>message := Some (ERROR_SUBMIT (config s))\<rparr>) s"

text \<open>\<^verbatim>\<open>DOMBatcher.flush\<close> (lines 1378 to 1391), run by the animation frame.\<close>

definition flush :: "wa_sys \<Rightarrow> wa_sys" where
  "flush s = foldl (\<lambda>s u. run_update u s) (s\<lparr>updateQueue := []\<rparr>) (updateQueue s)"

subsection \<open>The helpers of the validator\<close>

text \<open>\<^verbatim>\<open>RateLimiter\<close> (lines 1082 to 1110).\<close>

definition canMakeRequest :: "int \<Rightarrow> wa_sys \<Rightarrow> bool \<times> wa_sys" where
  "canMakeRequest now s =
     (let kept = filter (\<lambda>time. now - time < TIME_WINDOW (config s)) (rate_requests s)
      in (length kept < MAX_REQUESTS (config s), s\<lparr>rate_requests := kept\<rparr>))"

definition addRequest :: "int \<Rightarrow> wa_sys \<Rightarrow> wa_sys" where
  "addRequest now s = s\<lparr>rate_requests := rate_requests s @ [now]\<rparr>"

text \<open>\<^verbatim>\<open>PerformanceBudget.incrementRequest\<close> (lines 1635 to 1646).\<close>

definition incrementRequest :: "int \<Rightarrow> wa_sys \<Rightarrow> bool \<times> wa_sys" where
  "incrementRequest now s =
     (let s1 = (if now - lastRequestReset s > 60000
                then s\<lparr>requestCount := 0, lastRequestReset := now\<rparr> else s);
          s2 = s1\<lparr>requestCount := requestCount s1 + 1\<rparr>
      in (requestCount s2 < 15, s2))"

text \<open>
  \<^verbatim>\<open>ErrorBoundary\<close> (lines 1438 to 1522); only the number of stored errors matters.
  \<^verbatim>\<open>attemptAutoRecovery\<close> keeps the last three and sets a timer.
\<close>

definition handleGracefulDegradation :: "wa_sys \<Rightarrow> bool \<times> wa_sys" where
  "handleGracefulDegradation s =
     (if errors s > 5
      then (True, s\<lparr>errors := min (errors s) 3, recovery_timers := recovery_timers s + 1\<rparr>)
      else (False, s))"

definition captureError :: "wa_sys \<Rightarrow> wa_sys" where
  "captureError s =
     (let n = errors s + 1; s1 = s\<lparr>errors := (if n > 10 then n - 1 else n)\<rparr>
      in snd (handleGracefulDegradation s1))"

definition recovery_timer_fires :: "wa_sys \<Rightarrow> wa_sys" where
  "recovery_timer_fires s =
     (if recovery_timers s = 0 then s
      else let s1 = s\<lparr>recovery_timers := recovery_timers s - 1\<rparr>
           in if errors s1 < 3 then s1\<lparr>errors := 0\<rparr> else s1)"

text \<open>\<^verbatim>\<open>NetworkMonitor.getOptimalTimeout\<close> (lines 1580 to 1590).\<close>

fun getOptimalTimeout :: "quality \<Rightarrow> int" where
  "getOptimalTimeout Poor = 15000"
| "getOptimalTimeout Moderate = 10000"
| "getOptimalTimeout Good = 7000"

text \<open>
  The timeout \<^verbatim>\<open>executeRequest\<close> arms (line 1270):
  \<^verbatim>\<open>customTimeout || CONFIG.TIMEOUTS[attemptNumber] || 5000\<close>; 0 and an absent value are
  falsy.
\<close>

definition request_timeout :: "wa_config \<Rightarrow> nat \<Rightarrow> int option \<Rightarrow> int" where
  "request_timeout cfg attemptNumber customTimeout =
     (case customTimeout of
        Some t \<Rightarrow> if t \<noteq> 0 then t else or_default (index (TIMEOUTS cfg) attemptNumber) 5000
      | None \<Rightarrow> or_default (index (TIMEOUTS cfg) attemptNumber) 5000)"

text \<open>
  \<^verbatim>\<open>RequestManager.makeRequest\<close> (lines 1247 to 1266): a call for a phone number that has
  a request in progress waits for that one; otherwise \<^verbatim>\<open>executeRequest\<close> starts a
  network call. Either way the run \<open>j\<close> then awaits the outcome.
\<close>

definition makeRequest :: "wa_job \<Rightarrow> int option \<Rightarrow> wa_sys \<Rightarrow> wa_sys" where
  "makeRequest j customTimeout s =
     (if phone j \<in> set (activeRequests s) then s\<lparr>awaiting := awaiting s @ [j]\<rparr>
      else s\<lparr>activeRequests := activeRequests s @ [phone j],
             requests := requests s @
               [\<lparr>req_phone = phone j, req_attempt = attempt j,
                 req_timeout = request_timeout (config s) (attempt j) customTimeout\<rparr>],
             awaiting := awaiting s @ [j]\<rparr>)"

subsection \<open>\<^verbatim>\<open>validateWhatsApp\<close>\<close>

text \<open>
  \<^verbatim>\<open>validateWhatsApp(attemptNumber, onComplete)\<close> from its start to the call of
  \<^verbatim>\<open>makeRequest\<close> (lines 2118 to 2245), in three parts, last part first: the
  normalisation and the request (lines 2213 to 2245); the code between the cache's
  answer and the normalisation (lines 2184 to 2211); and the checks before the cache is
  asked (lines 2118 to 2183). The result says whether the run has ended (so that
  \<^verbatim>\<open>onComplete\<close>, if there is one, is to be called) or is waiting.
\<close>

definition send_request :: "nat \<Rightarrow> bool \<Rightarrow> string \<Rightarrow> wa_sys \<Rightarrow> wa_sys \<times> bool" where
  "send_request attemptNumber hasOnComplete raw s =
     (let ph = normalize raw in
        if ph = lastCheckedNumber (state s) \<and> validationState (state s) \<noteq> None
           \<and> attemptNumber = 0
          then (s, True)
        else
          let s1 = (if attemptNumber = 0 then updateUI None [] True s else s);
              s2 = (if retryController (state s1) \<noteq> None \<and> attemptNumber = 0
                    then s1\<lparr>state := (state s1)\<lparr>retryController := None\<rparr>\<rparr> else s1)
          in (makeRequest
                \<lparr>rawValue = raw, phone = ph, attempt = attemptNumber, onComplete = hasOnComplete\<rparr>
                (Some (getOptimalTimeout (connectionQuality s2))) s2,
              False))"

text \<open>
  A cached entry without a result makes the run throw outside its \<^verbatim>\<open>try\<close>: the promise
  is rejected, \<^verbatim>\<open>onComplete\<close> is never called, and the page's \<^verbatim>\<open>unhandledrejection\<close>
  listener records the error.
\<close>

definition after_cache ::
  "nat \<Rightarrow> bool \<Rightarrow> int \<Rightarrow> string \<Rightarrow> cached \<Rightarrow> wa_sys \<Rightarrow> wa_sys \<times> bool" where
  "after_cache attemptNumber hasOnComplete now raw cachedResult s =
     (if cachedResult \<noteq> CNull \<and> attemptNumber = 0 then
        (case cachedResult of
           CValue isRegistered \<Rightarrow> (handleValidationResult isRegistered raw s, True)
         | _ \<Rightarrow> (captureError (s\<lparr>rejected := rejected s + 1\<rparr>), False))
      else
        (case (if attemptNumber = 0 then canMakeRequest now s else (True, s)) of
           (allowed, s1) \<Rightarrow>
             if \<not> allowed
               then (updateUI (Some False) (RATE_LIMIT_MESSAGE (config s1)) False s1, True)
             else
               (case incrementRequest now s1 of
                  (within, s2) \<Rightarrow>
                    if \<not> within then
                      (updateUI (Some False)
                         ''Terlalu banyak validasi. Silakan tunggu sebentar.'' False s2, True)
                    else send_request attemptNumber hasOnComplete raw s2)))"

definition validateWhatsApp :: "nat \<Rightarrow> bool \<Rightarrow> int \<Rightarrow> wa_sys \<Rightarrow> wa_sys \<times> bool" where
  "validateWhatsApp attemptNumber hasOnComplete now s0 =
     (case handleGracefulDegradation s0 of (degraded, s) \<Rightarrow>
      if degraded then (activateFailsafe s, True)
      else if \<not> online s then (updateUI None ''Tidak ada koneksi internet'' False s, True)
      else if \<not> budget_ok s then (activateFailsafe s, True)
      else
        let s1 = (if failsafeMode (state s) \<and> attemptNumber = 0
                  then s\<lparr>state := (state s)\<lparr>failsafeMode := False\<rparr>\<rparr> else s)
        in
        if failsafeMode (state s1) \<and> \<not> isRetrying (state s1)
          then (updateInputIcon IconNone s1, True)
        else
          let raw = trim (input_value (ui s1)) in
          if raw = [] then
            (updateSubmitButton Clear
               ((\<lambda>t. t\<lparr>state := (state t)\<lparr>lastCheckedNumber := [], validationState := None\<rparr>\<rparr>)
                  (updateUI None [] False s1)), True)
          else if length raw < MIN_PHONE_LENGTH (config s1) then (updateUI None [] False s1, True)
          else
            (case cache_get (CACHE (config s1)) ''__wa_test__'' (storage_writable s1) now raw
                    (cacheManager s1) (localStorage s1) of
               (cachedResult, m, st) \<Rightarrow>
                 after_cache attemptNumber hasOnComplete now raw cachedResult
                   (s1\<lparr>cacheManager := m, localStorage := st\<rparr>)))"

text \<open>
  The queue's side of a run: a dispatched entry starts \<^verbatim>\<open>validateWhatsApp(0, onComplete)\<close>;
  when the run ends at once, its \<^verbatim>\<open>onComplete\<close> frees the slot and dispatches the next
  entry. No run touches the queue, so the manager is carried beside the state.
\<close>

function run_dispatched ::
  "int \<Rightarrow> unit queue_manager \<times> unit item option \<Rightarrow> wa_sys \<Rightarrow> wa_sys" where
  "run_dispatched now (q, None) s = s\<lparr>queueManager := q\<rparr>"
| "run_dispatched now (q, Some i) s =
     (case validateWhatsApp 0 True now (s\<lparr>queueManager := q\<rparr>) of
        (s', ended) \<Rightarrow> if ended then run_dispatched now (job_done q) s' else s')"
  by pat_completeness auto
termination
  by (relation "measure (\<lambda>(now, (q, d), s). case d of None \<Rightarrow> 0 | Some i \<Rightarrow> Suc (length (queue q)))")
    (auto simp: job_done_def process_def split: option.splits if_splits)

text \<open>What a run does when it ends: call \<^verbatim>\<open>onComplete\<close> if it has one.\<close>

definition call_onComplete :: "bool \<Rightarrow> int \<Rightarrow> wa_sys \<Rightarrow> wa_sys" where
  "call_onComplete hasOnComplete now s =
     (if hasOnComplete then run_dispatched now (job_done (queueManager s)) s else s)"

text \<open>\<^verbatim>\<open>queueValidation\<close> (lines 2103 to 2116).\<close>

definition queueValidation :: "int \<Rightarrow> wa_sys \<Rightarrow> wa_sys" where
  "queueValidation now s =
     (if \<not> domModified (state s) then s
      else let phoneNumber = trim (input_value (ui s)) in
        if phoneNumber = [] \<or> length phoneNumber < MIN_PHONE_LENGTH (config s) then s
        else run_dispatched now (add phoneNumber () (queueManager s)) s)"

subsection \<open>When a request settles\<close>

text \<open>
  The JSON body of a reply, as far as the validator reads it: \<^verbatim>\<open>null\<close>, or a value with
  \<^verbatim>\<open>data.status\<close> (when \<^verbatim>\<open>data\<close> is an object) and \<^verbatim>\<open>status\<close>.
\<close>

datatype api_data = ApiNull | ApiData "jsval option" jsval

definition isRegistered_of :: "jsval option \<Rightarrow> jsval \<Rightarrow> bool" where
  "isRegistered_of inner outer =
     (case inner of
        Some v \<Rightarrow> v = JBool True
      | None \<Rightarrow> outer \<noteq> JUndefined \<and> outer = JBool True)"

text \<open>
  The \<^verbatim>\<open>catch\<close> of \<^verbatim>\<open>validateWhatsApp\<close> (lines 2270 to 2326), for the run \<open>j\<close>: below two
  failed attempts a retry timer is set, with the delay \<^verbatim>\<open>CONFIG.RETRY_DELAYS[attempt]\<close>;
  after the third the failsafe is activated.
\<close>

definition request_failed :: "int \<Rightarrow> wa_job \<Rightarrow> wa_sys \<Rightarrow> wa_sys" where
  "request_failed now j s =
     (let s1 = captureError s in
        if attempt j < 2 then
          s1\<lparr>state := (state s1)\<lparr>isRetrying := True\<rparr>,
              retry_timers := retry_timers s1 @ [(j, index (RETRY_DELAYS (config s1)) (attempt j))]\<rparr>
        else
          (case handleGracefulDegradation s1 of
             (degraded, s2) \<Rightarrow>
               if degraded then call_onComplete (onComplete j) now (activateFailsafe s2)
               else call_onComplete (onComplete j) now
                      (activateFailsafe
                        (s2\<lparr>state := (state s2)\<lparr>isRetrying := False, retryController := None\<rparr>\<rparr>))))"

text \<open>
  The rest of the \<^verbatim>\<open>try\<close> after \<^verbatim>\<open>makeRequest\<close> returns (lines 2247 to 2269), for the run
  \<open>j\<close>. Reading \<^verbatim>\<open>data.data\<close> of \<^verbatim>\<open>null\<close> throws into the \<^verbatim>\<open>catch\<close>.
\<close>

definition request_succeeded :: "api_data \<Rightarrow> int \<Rightarrow> wa_job \<Rightarrow> wa_sys \<Rightarrow> wa_sys" where
  "request_succeeded reply now j s =
     (let s1 = s\<lparr>state := (state s)\<lparr>isRetrying := False, retryController := None\<rparr>\<rparr> in
        case reply of
          ApiNull \<Rightarrow> request_failed now j s1
        | ApiData inner outer \<Rightarrow>
            let isRegistered = isRegistered_of inner outer in
            (case wa_cache_set (CACHE (config s1)) (storage_writable s1) now now now (rawValue j)
                    isRegistered isRegistered (cacheManager s1) (localStorage s1) of
               (m, st) \<Rightarrow>
                 call_onComplete (onComplete j) now
                   (handleValidationResult isRegistered (phone j)
                      (s1\<lparr>cacheManager := m, localStorage := st\<rparr>))))"

text \<open>
  The network call for \<open>p\<close> settles: \<^verbatim>\<open>makeRequest\<close> forgets it (its \<^verbatim>\<open>finally\<close>), and
  every run that awaits it goes on. \<open>reply\<close> is \<open>None\<close> when \<^verbatim>\<open>executeRequest\<close> throws
  (a status of 400 or more, a content type that is not JSON, a body that does not parse,
  the timeout's abort or a network error); otherwise the rate limiter counts the
  request.
\<close>

definition settle :: "string \<Rightarrow> api_data option \<Rightarrow> int \<Rightarrow> wa_sys \<Rightarrow> wa_sys" where
  "settle p reply now s =
     (if p \<notin> set (activeRequests s) then s
      else
        let jobs = filter (\<lambda>j. phone j = p) (awaiting s);
            s1 = s\<lparr>activeRequests := filter (\<lambda>x. x \<noteq> p) (activeRequests s),
                   requests := filter (\<lambda>r. req_phone r \<noteq> p) (requests s),
                   awaiting := filter (\<lambda>j. phone j \<noteq> p) (awaiting s)\<rparr>
        in case reply of
             None \<Rightarrow> foldl (\<lambda>t j. request_failed now j t) s1 jobs
           | Some d \<Rightarrow> foldl (\<lambda>t j. request_succeeded d now j t) (addRequest now s1) jobs)"

text \<open>The callback of the retry timer (lines 2298 to 2306), for the \<open>k\<close>-th pending timer.\<close>

definition retry_fires :: "nat \<Rightarrow> int \<Rightarrow> wa_sys \<Rightarrow> wa_sys" where
  "retry_fires k now s =
     (if k \<ge> length (retry_timers s) then s
      else
        let j = fst (retry_timers s ! k);
            s1 = s\<lparr>retry_timers := take k (retry_timers s) @ drop (Suc k) (retry_timers s)\<rparr>
        in if trim (input_value (ui s1)) = rawValue j then
             (case validateWhatsApp (attempt j + 1) (onComplete j) now s1 of
                (s2, ended) \<Rightarrow> if ended then call_onComplete (onComplete j) now s2 else s2)
           else
             call_onComplete (onComplete j) now
               (updateInputIcon IconNone (s1\<lparr>state := (state s1)\<lparr>isRetrying := False\<rparr>\<rparr>)))"

subsection \<open>The handlers of the page's events\<close>

text \<open>\<^verbatim>\<open>onFirstInteraction\<close>, \<^verbatim>\<open>enableDOMModifications\<close> and \<^verbatim>\<open>setupComponents\<close> (lines 1735 to 1803).\<close>

definition onFirstInteraction :: "wa_sys \<Rightarrow> wa_sys" where
  "onFirstInteraction s =
     (if firstInteraction (state s) then s
      else s\<lparr>state := (state s)\<lparr>firstInteraction := True, domModified := True,
                                 originalButton_disabled := submit_disabled (ui s)\<rparr>\<rparr>)"

text \<open>\<^verbatim>\<open>debouncedValidate\<close> sets the timer (lines 2095 to 2101); this is its callback.\<close>

definition debounce_fires :: "int \<Rightarrow> wa_sys \<Rightarrow> wa_sys" where
  "debounce_fires now s =
     (if \<not> debounceTimer (state s) then s
      else queueValidation now (s\<lparr>state := (state s)\<lparr>debounceTimer := False\<rparr>\<rparr>))"

text \<open>\<^verbatim>\<open>handleInput\<close> (lines 1907 to 1957) with \<^verbatim>\<open>validateSilently\<close>.\<close>

definition handleInput :: "wa_sys \<Rightarrow> wa_sys" where
  "handleInput s =
     (let v = trim (input_value (ui s)) in
      if \<not> domModified (state s) then
        (if length v \<ge> MIN_PHONE_LENGTH (config s)
         then s\<lparr>state := (state s)\<lparr>lastCheckedNumber := v\<rparr>\<rparr> else s)
      else
        let s1 = (if retryController (state s) \<noteq> None
                  then s\<lparr>state := (state s)\<lparr>retryController := None, isRetrying := False\<rparr>\<rparr>
                  else s);
            s2 = (if v \<noteq> lastCheckedNumber (state s1)
                  then s1\<lparr>queueManager := cancel (lastCheckedNumber (state s1)) (queueManager s1)\<rparr>
                  else s1);
            s3 = (if failsafeMode (state s2)
                  then s2\<lparr>state := (state s2)\<lparr>failsafeMode := False\<rparr>\<rparr> else s2)
        in
        if v = [] then
          updateSubmitButton Clear
            (updateInputIcon IconNone
              (updateUI None [] False
                (s3\<lparr>state := (state s3)\<lparr>validationState := None, lastCheckedNumber := []\<rparr>\<rparr>)))
        else
          let s4 = (if validationState (state s3) = Some False
                    then updateSubmitButton Disable s3 else s3)
          in
          if length v \<ge> MIN_PHONE_LENGTH (config s4)
            then s4\<lparr>state := (state s4)\<lparr>debounceTimer := True\<rparr>\<rparr>
          else
            let s5 = updateUI None [] False (s4\<lparr>state := (state s4)\<lparr>debounceTimer := False\<rparr>\<rparr>);
                s6 = s5\<lparr>state := (state s5)\<lparr>lastCheckedNumber := []\<rparr>\<rparr>
            in if validationState (state s6) = Some False
               then updateSubmitButton Disable s6 else s6)"

text \<open>\<^verbatim>\<open>handleBlur\<close> (lines 1972 to 1985).\<close>

definition handleBlur :: "int \<Rightarrow> wa_sys \<Rightarrow> wa_sys" where
  "handleBlur now s =
     (if \<not> domModified (state s) then s
      else
        let s1 = s\<lparr>state := (state s)\<lparr>debounceTimer := False\<rparr>\<rparr>;
            v = trim (input_value (ui s1))
        in if length v \<ge> MIN_PHONE_LENGTH (config s1) then queueValidation now s1
           else if v = [] then
             updateSubmitButton Clear (s1\<lparr>state := (state s1)\<lparr>validationState := None\<rparr>\<rparr>)
           else s1)"

text \<open>
  \<^verbatim>\<open>handleKeypress\<close> for the Enter key (lines 1987 to 2027). The result says whether
  \<^verbatim>\<open>preventDefault\<close> was called: for Enter always (line 1989), so the key never submits
  the form.
\<close>

definition handleKeypress :: "int \<Rightarrow> wa_sys \<Rightarrow> wa_sys \<times> bool" where
  "handleKeypress now s =
     (if \<not> domModified (state s) then (s, True)
      else if isRetrying (state s) \<and> retryController (state s) \<noteq> None then
        (activateFailsafe (s\<lparr>state := (state s)\<lparr>retryController := None, isRetrying := False\<rparr>\<rparr>),
         True)
      else if failsafeMode (state s) then (s, True)
      else if validationState (state s) = Some False then (schedule SubmitErrorUpdate s, True)
      else
        let s1 = s\<lparr>state := (state s)\<lparr>debounceTimer := False\<rparr>\<rparr> in
          if length (trim (input_value (ui s1))) \<ge> MIN_PHONE_LENGTH (config s1)
          then (queueValidation now s1, True) else (s1, True))"

text \<open>
  The listeners of \<^verbatim>\<open>setupPhoneFormatter\<close> (lines 1858 to 1906): on blur a value that is
  not empty is kept in \<^verbatim>\<open>actualValue\<close> and the field shows it formatted; on focus, and
  when the form is submitted, the field gets the kept value back.
\<close>

definition formatter_blur :: "wa_sys \<Rightarrow> wa_sys" where
  "formatter_blur s =
     (if input_value (ui s) = [] then s
      else s\<lparr>state := (state s)\<lparr>actualValue := input_value (ui s), isFormatted := True\<rparr>,
             ui := (ui s)\<lparr>input_value := format (input_value (ui s))\<rparr>\<rparr>)"

definition formatter_focus :: "wa_sys \<Rightarrow> wa_sys" where
  "formatter_focus s =
     (if isFormatted (state s)
      then s\<lparr>ui := (ui s)\<lparr>input_value := actualValue (state s)\<rparr>,
             state := (state s)\<lparr>isFormatted := False\<rparr>\<rparr>
      else s)"

definition formatter_submit :: "wa_sys \<Rightarrow> wa_sys" where
  "formatter_submit s =
     (if isFormatted (state s)
      then s\<lparr>ui := (ui s)\<lparr>input_value := actualValue (state s)\<rparr>,
             state := (state s)\<lparr>isFormatted := False\<rparr>\<rparr>
      else s)"

text \<open>
  A focus event on the input. Its listeners run in the order they were added:
  \<^verbatim>\<open>onFirstInteraction\<close> (line 1815; added once, and without effect after the first
  interaction), then the formatter's. The formatter's listeners are added by
  \<^verbatim>\<open>setupComponents\<close> at the first interaction, so they run for the events after it.
  \<^verbatim>\<open>phoneInput.focus()\<close> raises the event when the input does not have the focus.
\<close>

definition focus_event :: "wa_sys \<Rightarrow> wa_sys" where
  "focus_event s =
     (let s1 = onFirstInteraction (s\<lparr>ui := (ui s)\<lparr>focused := True\<rparr>\<rparr>)
      in if firstInteraction (state s) then formatter_focus s1 else s1)"

definition input_focus :: "wa_sys \<Rightarrow> wa_sys" where
  "input_focus s = (if focused (ui s) then s else focus_event s)"

text \<open>
  A blur event on the input, when the user leaves it: \<^verbatim>\<open>handleBlur\<close> (added at line
  1830) with the validation it starts, then the formatter's listener. The validation
  reads the field before its first \<^verbatim>\<open>await\<close>, and what it does afterwards does not touch
  the field.
\<close>

definition blur_event :: "int \<Rightarrow> wa_sys \<Rightarrow> wa_sys" where
  "blur_event now s =
     (let s1 = handleBlur now (s\<lparr>ui := (ui s)\<lparr>focused := False\<rparr>\<rparr>)
      in if firstInteraction (state s) then formatter_blur s1 else s1)"

text \<open>
  \<^verbatim>\<open>handleFormSubmit\<close> and \<^verbatim>\<open>handleSubmitClick\<close> (lines 2029 to 2065; the two bodies are
  the same), with \<^verbatim>\<open>showValidationError\<close> (lines 2067 to 2093), which schedules the
  message and gives the input the focus. The result says whether the event was stopped:
  \<^verbatim>\<open>preventDefault\<close> and \<^verbatim>\<open>stopPropagation\<close> called and the message scheduled.
\<close>

definition showValidationError :: "wa_sys \<Rightarrow> wa_sys" where
  "showValidationError s = input_focus (schedule SubmitErrorUpdate s)"

definition handleFormSubmit :: "wa_sys \<Rightarrow> wa_sys \<times> bool" where
  "handleFormSubmit s =
     (if isRetrying (state s) \<and> retryController (state s) \<noteq> None then
        (activateFailsafe (s\<lparr>state := (state s)\<lparr>retryController := None, isRetrying := False\<rparr>\<rparr>),
         False)
      else if failsafeMode (state s) then (s, False)
      else if validationState (state s) = Some False then (showValidationError s, True)
      else (s, False))"

definition handleSubmitClick :: "wa_sys \<Rightarrow> wa_sys \<times> bool" where
  "handleSubmitClick s =
     (if isRetrying (state s) \<and> retryController (state s) \<noteq> None then
        (activateFailsafe (s\<lparr>state := (state s)\<lparr>retryController := None, isRetrying := False\<rparr>\<rparr>),
         False)
      else if failsafeMode (state s) then (s, False)
      else if validationState (state s) = Some False then (showValidationError s, True)
      else (s, False))"

text \<open>
  A submit event on the form: \<^verbatim>\<open>handleFormSubmit\<close> (added at line 1839), then the
  formatter's listener (line 1892), which \<^verbatim>\<open>stopPropagation\<close> does not keep from running.
\<close>

definition submit_event :: "wa_sys \<Rightarrow> wa_sys \<times> bool" where
  "submit_event s =
     (case handleFormSubmit s of
        (s1, stopped) \<Rightarrow>
          (if firstInteraction (state s) then formatter_submit s1 else s1, stopped))"

subsection \<open>Runs of the validator\<close>

text \<open>
  What can happen on the page: the user focuses the field, edits it (the new value is
  given), leaves it, presses Enter, submits; a script changes the value without an input
  event; the debounce timer, an animation frame, a retry timer, the recovery timer or
  the idle cleanup fires; a request settles; the surroundings change.
\<close>

datatype wa_event =
    Focus
  | Edit string
  | SetValue string
  | Blur
  | Enter
  | FormSubmit
  | SubmitClick
  | DebounceFires
  | Frame
  | RetryFires nat
  | RecoveryFires
  | IdleCleanup
  | Reply string api_data
  | Fails string
  | SetOnline bool
  | SetQuality quality
  | SetBudget bool
  | SetOtherError bool
  | SetWritable bool

fun wa_step :: "wa_sys \<Rightarrow> int \<times> wa_event \<Rightarrow> wa_sys" where
  "wa_step s (now, Focus) = focus_event s"
| "wa_step s (now, Edit v) =
     handleInput (onFirstInteraction (s\<lparr>ui := (ui s)\<lparr>input_value := v\<rparr>\<rparr>))"
| "wa_step s (now, SetValue v) = s\<lparr>ui := (ui s)\<lparr>input_value := v\<rparr>\<rparr>"
| "wa_step s (now, Blur) = blur_event now s"
| "wa_step s (now, Enter) = fst (handleKeypress now s)"
| "wa_step s (now, FormSubmit) = fst (submit_event s)"
| "wa_step s (now, SubmitClick) = fst (handleSubmitClick s)"
| "wa_step s (now, DebounceFires) = debounce_fires now s"
| "wa_step s (now, Frame) = flush s"
| "wa_step s (now, RetryFires k) = retry_fires k now s"
| "wa_step s (now, RecoveryFires) = recovery_timer_fires s"
| "wa_step s (now, IdleCleanup) =
     (if cleanupScheduled (cacheManager s) then
        (case run_scheduled_cleanup (CACHE (config s)) (storage_writable s) now
                (cacheManager s) (localStorage s) of
           (m, st) \<Rightarrow> s\<lparr>cacheManager := m, localStorage := st\<rparr>)
      else s)"
| "wa_step s (now, Reply p d) = settle p (Some d) now s"
| "wa_step s (now, Fails p) = settle p None now s"
| "wa_step s (now, SetOnline b) = s\<lparr>online := b\<rparr>"
| "wa_step s (now, SetQuality q) = s\<lparr>connectionQuality := q\<rparr>"
| "wa_step s (now, SetBudget b) = s\<lparr>budget_ok := b\<rparr>"
| "wa_step s (now, SetOtherError b) = s\<lparr>ui := (ui s)\<lparr>other_error := b\<rparr>\<rparr>"
| "wa_step s (now, SetWritable b) = s\<lparr>storage_writable := b\<rparr>"

definition wa_run :: "wa_sys \<Rightarrow> (int \<times> wa_event) list \<Rightarrow> wa_sys" where
  "wa_run s evs = foldl wa_step s evs"

subsection \<open>Notions for stating what the validator does\<close>



section \<open>The email validator\<close>

text \<open>
  \<^verbatim>\<open>EmailValidator\<close> (lines 216 to 780). The closures it hands to the batcher are
  kept in the order scheduled; what they draw is not modelled, and neither is the click
  handler of a suggested correction. \<open>checkValidity\<close> stands for the browser's
  constraint validation of the input's value.
\<close>

record email_state =
  e_validationState :: "bool option"
  e_debounceTimer :: bool
  lastValidatedEmail :: string
  isValidating :: bool
  activeEmail :: "string option"
  invalidEdited :: bool

datatype email_update =
    EmailUI "bool option" string bool
  | EmailIcon icon_type
  | EmailSubmit button_action
  | EmailSubmitError

text \<open>A run of \<^verbatim>\<open>validateEmail\<close> that waits, in the \<open>i\<close>-th round of its loop.\<close>

record email_job =
  job_email :: string
  round :: nat

record email_sys =
  checkValidity :: "string \<Rightarrow> bool"
  e_state :: email_state
  e_input :: string
  e_scheduled :: "email_update list"
  e_queue :: "unit queue_manager"
  e_cache :: cache_manager
  e_storage :: storage
  e_writable :: bool
  fetches :: "email_job list"
  delays :: "email_job list"

definition new_email_sys :: "(string \<Rightarrow> bool) \<Rightarrow> storage \<Rightarrow> email_sys" where
  "new_email_sys valid stored_before =
     \<lparr>checkValidity = valid,
      e_state = \<lparr>e_validationState = None, e_debounceTimer = False, lastValidatedEmail = [],
                 isValidating = False, activeEmail = None, invalidEdited = False\<rparr>,
      e_input = [], e_scheduled = [], e_queue = new_queue_manager,
      e_cache = new_cache_manager, e_storage = stored_before, e_writable = True,
      fetches = [], delays = []\<rparr>"

definition e_updateUI :: "bool option \<Rightarrow> string \<Rightarrow> bool \<Rightarrow> email_sys \<Rightarrow> email_sys" where
  "e_updateUI isValid msg isLoading s =
     s\<lparr>e_scheduled := e_scheduled s @ [EmailUI isValid msg isLoading]\<rparr>"

definition e_updateSubmitButton :: "button_action \<Rightarrow> email_sys \<Rightarrow> email_sys" where
  "e_updateSubmitButton a s = s\<lparr>e_scheduled := e_scheduled s @ [EmailSubmit a]\<rparr>"

definition e_set_validationState :: "bool option \<Rightarrow> email_sys \<Rightarrow> email_sys" where
  "e_set_validationState v s = s\<lparr>e_state := (e_state s)\<lparr>e_validationState := v\<rparr>\<rparr>"

text \<open>The reply of the email API: the request fails, or the body is \<^verbatim>\<open>null\<close>, or it has a
  \<^verbatim>\<open>result\<close> and possibly \<^verbatim>\<open>did_you_mean\<close>.\<close>

datatype email_reply = ReplyError | ReplyNull | ReplyData string "string option"

text \<open>
  \<^verbatim>\<open>validateEmail\<close> from its start to its first \<^verbatim>\<open>fetch\<close> (lines 388 to 416). The result
  says whether the run has ended (its \<^verbatim>\<open>finally\<close> has run and \<^verbatim>\<open>done\<close> is to be called).
\<close>

definition e_finally :: "email_sys \<Rightarrow> email_sys" where
  "e_finally s = s\<lparr>e_state := (e_state s)\<lparr>isValidating := False, activeEmail := None\<rparr>\<rparr>"

definition verdict_applied :: "bool \<Rightarrow> string \<Rightarrow> string \<Rightarrow> email_sys \<Rightarrow> email_sys" where
  "verdict_applied v msg email s =
     (let s1 = e_updateUI (Some v) msg False s
      in s1\<lparr>e_state := (e_state s1)\<lparr>e_validationState := Some v, lastValidatedEmail := email\<rparr>\<rparr>)"

definition validateEmail :: "string \<Rightarrow> int \<Rightarrow> email_sys \<Rightarrow> email_sys \<times> bool" where
  "validateEmail email now s =
     (let s1 = s\<lparr>e_state := (e_state s)\<lparr>isValidating := True, activeEmail := Some email,
                                       invalidEdited := False\<rparr>\<rparr>
      in case cache_get email_cache_config ''__email_test__'' (e_writable s1) now email
                (e_cache s1) (e_storage s1) of
           (cached, m, st) \<Rightarrow>
             let s2 = s1\<lparr>e_cache := m, e_storage := st\<rparr> in
               if cached = CValue True then (e_finally (verdict_applied True [] email s2), True)
               else ((e_updateUI None [] True s2)
                       \<lparr>fetches := fetches s2 @ [\<lparr>job_email = email, round = 0\<rparr>]\<rparr>, False))"

function e_run_dispatched ::
  "int \<Rightarrow> unit queue_manager \<times> unit item option \<Rightarrow> email_sys \<Rightarrow> email_sys" where
  "e_run_dispatched now (q, None) s = s\<lparr>e_queue := q\<rparr>"
| "e_run_dispatched now (q, Some i) s =
     (case validateEmail (subject i) now (s\<lparr>e_queue := q\<rparr>) of
        (s', ended) \<Rightarrow> if ended then e_run_dispatched now (job_done q) s' else s')"
  by pat_completeness auto
termination
  by (relation "measure (\<lambda>(now, (q, d), s). case d of None \<Rightarrow> 0 | Some i \<Rightarrow> Suc (length (queue q)))")
    (auto simp: job_done_def process_def split: option.splits if_splits)

text \<open>The end of a run: the \<^verbatim>\<open>finally\<close> of \<^verbatim>\<open>validateEmail\<close>, then \<^verbatim>\<open>done\<close>.\<close>

definition e_finish :: "int \<Rightarrow> email_sys \<Rightarrow> email_sys" where
  "e_finish now s = (let s1 = e_finally s in e_run_dispatched now (job_done (e_queue s1)) s1)"

text \<open>The discard of a stale run (lines 426 to 430 and 436 to 440).\<close>

definition e_discard :: "int \<Rightarrow> email_sys \<Rightarrow> email_sys" where
  "e_discard now s = e_finish now (e_set_validationState None (e_updateUI None [] False s))"

text \<open>The code after the loop (lines 444 to 477), for a reply with a result.\<close>

definition conclude :: "string \<Rightarrow> string option \<Rightarrow> string \<Rightarrow> int \<Rightarrow> email_sys \<Rightarrow> email_sys" where
  "conclude result did_you_mean email now s =
     (if result = ''unknown'' then e_discard now s
      else if result = ''valid'' then
        (case email_cache_set (e_writable s) now now email True True (e_cache s) (e_storage s) of
           (m, st) \<Rightarrow>
             e_finish now (verdict_applied True [] email (s\<lparr>e_cache := m, e_storage := st\<rparr>)))
      else if result = ''invalid'' then
        (case did_you_mean of
           Some suggestion \<Rightarrow>
             if suggestion \<noteq> [] then
               e_finish now
                 (verdict_applied False (''Maksud Anda: '' @ suggestion @ ''?'') email s)
             else e_finish now (verdict_applied False [] email s)
         | None \<Rightarrow> e_finish now (verdict_applied False [] email s))
      else e_finish now
             (e_set_validationState None (e_updateUI None ''Error validating email'' False s)))"

text \<open>The \<open>k\<close>-th \<^verbatim>\<open>fetch\<close> in flight returns (lines 417 to 441).\<close>

definition fetch_returns :: "nat \<Rightarrow> email_reply \<Rightarrow> int \<Rightarrow> email_sys \<Rightarrow> email_sys" where
  "fetch_returns k reply now s =
     (if k \<ge> length (fetches s) then s
      else
        let j = fetches s ! k;
            s1 = s\<lparr>fetches := take k (fetches s) @ drop (Suc k) (fetches s)\<rparr>
        in case reply of
             ReplyError \<Rightarrow>
               e_finish now
                 (e_set_validationState None (e_updateUI None ''Error validating email'' False s1))
           | ReplyNull \<Rightarrow>
               if trim (e_input s1) \<noteq> job_email j then e_discard now s1 else e_finish now s1
           | ReplyData result did_you_mean \<Rightarrow>
               if trim (e_input s1) \<noteq> job_email j then e_discard now s1
               else if result \<noteq> ''unknown'' then conclude result did_you_mean (job_email j) now s1
               else if round j < 2 then s1\<lparr>delays := delays s1 @ [j]\<rparr>
               else conclude result did_you_mean (job_email j) now s1)"

text \<open>The 1500 ms pause of the \<open>k\<close>-th waiting run ends (lines 435 to 441).\<close>

definition delay_ends :: "nat \<Rightarrow> int \<Rightarrow> email_sys \<Rightarrow> email_sys" where
  "delay_ends k now s =
     (if k \<ge> length (delays s) then s
      else
        let j = delays s ! k;
            s1 = s\<lparr>delays := take k (delays s) @ drop (Suc k) (delays s)\<rparr>
        in if trim (e_input s1) \<noteq> job_email j then e_discard now s1
           else s1\<lparr>fetches := fetches s1 @ [j\<lparr>round := round j + 1\<rparr>]\<rparr>)"

text \<open>\<^verbatim>\<open>queueValidation\<close> (lines 368 to 386).\<close>

definition e_queueValidation :: "int \<Rightarrow> email_sys \<Rightarrow> email_sys" where
  "e_queueValidation now s =
     (let email = trim (e_input s) in
        if email = [] \<or> \<not> checkValidity s (e_input s) then e_updateUI None [] False s
        else if (isValidating (e_state s) \<and> activeEmail (e_state s) = Some email)
                \<or> (e_validationState (e_state s) = Some True
                    \<and> lastValidatedEmail (e_state s) = email)
          then s
        else e_run_dispatched now (add email () (e_queue s)) s)"

text \<open>\<^verbatim>\<open>handleInput\<close> (lines 272 to 296) and the callback of the debounce timer.\<close>

definition e_handleInput :: "email_sys \<Rightarrow> email_sys" where
  "e_handleInput s =
     (let v = trim (e_input s);
          s1 = s\<lparr>e_state := (e_state s)\<lparr>invalidEdited :=
                  (e_validationState (e_state s) = Some False
                   \<and> v \<noteq> lastValidatedEmail (e_state s))\<rparr>\<rparr>
      in if v \<noteq> [] \<and> checkValidity s1 (e_input s1)
           then s1\<lparr>e_state := (e_state s1)\<lparr>e_debounceTimer := True\<rparr>\<rparr>
         else
           let s2 = e_updateUI None [] False
                      (s1\<lparr>e_state := (e_state s1)\<lparr>e_debounceTimer := False\<rparr>\<rparr>)
           in if v = [] then e_updateSubmitButton Clear (e_set_validationState None s2)
              else if e_validationState (e_state s2) = Some False
                then e_updateSubmitButton Disable s2
              else e_updateSubmitButton Clear s2)"

definition e_debounce_fires :: "int \<Rightarrow> email_sys \<Rightarrow> email_sys" where
  "e_debounce_fires now s =
     (if \<not> e_debounceTimer (e_state s) then s
      else e_queueValidation now (s\<lparr>e_state := (e_state s)\<lparr>e_debounceTimer := False\<rparr>\<rparr>))"

text \<open>\<^verbatim>\<open>handleBlur\<close> (lines 298 to 310).\<close>

definition e_handleBlur :: "int \<Rightarrow> email_sys \<Rightarrow> email_sys" where
  "e_handleBlur now s =
     (if e_validationState (e_state s) = Some False \<and> invalidEdited (e_state s)
         \<and> trim (e_input s) \<noteq> [] \<and> checkValidity s (e_input s)
      then (\<lambda>t. t\<lparr>e_state := (e_state t)\<lparr>invalidEdited := False\<rparr>\<rparr>) (e_queueValidation now s)
      else s)"

text \<open>
  \<^verbatim>\<open>handleSubmit\<close> and \<^verbatim>\<open>handleSubmitClick\<close> (lines 312 to 328; the two bodies are the
  same) with \<^verbatim>\<open>showValidationError\<close> (lines 330 to 358), which schedules the message,
  then through \<^verbatim>\<open>updateInputIcon(null)\<close> the icon's removal, then the button's
  disabling; the result says whether the event was stopped.
\<close>

definition e_updateInputIcon :: "icon_type \<Rightarrow> email_sys \<Rightarrow> email_sys" where
  "e_updateInputIcon t s = s\<lparr>e_scheduled := e_scheduled s @ [EmailIcon t]\<rparr>"

definition e_showValidationError :: "email_sys \<Rightarrow> email_sys" where
  "e_showValidationError s =
     e_updateSubmitButton Disable
       (e_updateInputIcon IconNone (s\<lparr>e_scheduled := e_scheduled s @ [EmailSubmitError]\<rparr>))"

definition handleSubmit :: "email_sys \<Rightarrow> email_sys \<times> bool" where
  "handleSubmit s =
     (if e_validationState (e_state s) = Some False then (e_showValidationError s, True)
      else (s, False))"

definition e_handleSubmitClick :: "email_sys \<Rightarrow> email_sys \<times> bool" where
  "e_handleSubmitClick s =
     (if e_validationState (e_state s) = Some False then (e_showValidationError s, True)
      else (s, False))"

datatype email_event =
    EEdit string
  | EBlur
  | ESubmit
  | ESubmitClick
  | EDebounceFires
  | FetchReturns nat email_reply
  | DelayEnds nat

fun email_step :: "email_sys \<Rightarrow> int \<times> email_event \<Rightarrow> email_sys" where
  "email_step s (now, EEdit v) = e_handleInput (s\<lparr>e_input := v\<rparr>)"
| "email_step s (now, EBlur) = e_handleBlur now s"
| "email_step s (now, ESubmit) = fst (handleSubmit s)"
| "email_step s (now, ESubmitClick) = fst (e_handleSubmitClick s)"
| "email_step s (now, EDebounceFires) = e_debounce_fires now s"
| "email_step s (now, FetchReturns k r) = fetch_returns k r now s"
| "email_step s (now, DelayEnds k) = delay_ends k now s"

definition email_run :: "email_sys \<Rightarrow> (int \<times> email_event) list \<Rightarrow> email_sys" where
  "email_run s evs = foldl email_step s evs"

chapter \<open>Properties\<close>

section \<open>Normalisation is idempotent\<close>

lemma strip_non_phone_idem: "strip_non_phone (strip_non_phone s) = strip_non_phone s"
  by (simp add: strip_non_phone_def)

lemma strip_non_phone_drop:
  "strip_non_phone (drop n (strip_non_phone s)) = drop n (strip_non_phone s)"
  unfolding strip_non_phone_def
  by (rule filter_True) (auto dest: in_set_dropD)

lemma space_not_phone: "is_space c \<Longrightarrow> \<not> phone_char c"
  by (auto simp: is_space_def phone_char_def is_digit_def)

lemma filter_dropWhile_space:
  "filter phone_char (dropWhile is_space s) = filter phone_char s"
  by (induction s) (auto dest: space_not_phone)

lemma strip_non_phone_trim: "strip_non_phone (trim s) = strip_non_phone s"
proof -
  have "filter phone_char (rev (dropWhile is_space (rev (dropWhile is_space s))))
        = rev (filter phone_char (dropWhile is_space (rev (dropWhile is_space s))))"
    by (simp add: rev_filter)
  also have "\<dots> = rev (filter phone_char (rev (dropWhile is_space s)))"
    by (simp add: filter_dropWhile_space)
  also have "\<dots> = filter phone_char (dropWhile is_space s)"
    by (simp add: rev_filter)
  finally show ?thesis
    by (simp add: strip_non_phone_def trim_def filter_dropWhile_space)
qed

lemma strip_plus: "strip_non_phone (CHR ''+'' # s) = CHR ''+'' # strip_non_phone s"
  by (simp add: strip_non_phone_def phone_char_def)

lemma strip_62: "strip_non_phone (''+62'' @ s) = ''+62'' @ strip_non_phone s"
  by (simp add: strip_non_phone_def phone_char_def is_digit_def)

lemma plus_first: "startsWith (CHR ''+'' # s) ''+''"
  "\<not> startsWith (CHR ''+'' # s) ''0''" "\<not> startsWith (CHR ''+'' # s) ''62''"
  by (simp_all add: startsWith_def)

lemma formatPhoneNumber_plus:
  "strip_non_phone s = s \<Longrightarrow>
   formatPhoneNumber (JStr (CHR ''+'' # s)) = JStr (CHR ''+'' # s)"
  by (simp add: formatPhoneNumber_def strip_non_phone_trim strip_plus plus_first)

lemma normalize_plus:
  "strip_non_phone s = s \<Longrightarrow> normalize (CHR ''+'' # s) = CHR ''+'' # s"
  by (simp add: normalize_def strip_plus plus_first)

lemma formatPhoneNumber_idem: "formatPhoneNumber (formatPhoneNumber v) = formatPhoneNumber v"
proof (cases "truthy v")
  case False
  then show ?thesis by (simp add: formatPhoneNumber_def)
next
  case True
  define c where "c = strip_non_phone (trim (js_String v))"
  have c: "strip_non_phone c = c"
    by (simp add: c_def strip_non_phone_idem)
  have d: "strip_non_phone (drop 1 c) = drop 1 c"
    unfolding c_def by (rule strip_non_phone_drop)
  consider (zero) "startsWith c ''0''"
    | (six) "\<not> startsWith c ''0''" "startsWith c ''62''"
    | (plus) "\<not> startsWith c ''0''" "\<not> startsWith c ''62''" "startsWith c ''+''"
    | (other) "\<not> startsWith c ''0''" "\<not> startsWith c ''62''" "\<not> startsWith c ''+''"
    by blast
  then show ?thesis
  proof cases
    case zero
    have "formatPhoneNumber v = JStr (CHR ''+'' # ''62'' @ drop 1 c)"
      using True zero by (simp add: formatPhoneNumber_def c_def [symmetric])
    moreover have "strip_non_phone (''62'' @ drop 1 c) = ''62'' @ drop 1 c"
      using d strip_62 [of "drop 1 c"] strip_plus [of "''62'' @ drop 1 c"] by simp
    ultimately show ?thesis
      using formatPhoneNumber_plus [of "''62'' @ drop 1 c"] by simp
  next
    case six
    have "formatPhoneNumber v = JStr (CHR ''+'' # c)"
      using True six by (simp add: formatPhoneNumber_def c_def [symmetric])
    then show ?thesis
      using formatPhoneNumber_plus [OF c] by simp
  next
    case plus
    then obtain r where r: "c = CHR ''+'' # r"
      by (cases c) (auto simp: startsWith_def)
    have "strip_non_phone r = r"
      using c strip_plus [of r] by (simp add: r)
    moreover have "formatPhoneNumber v = JStr (CHR ''+'' # r)"
      using True plus r by (simp add: formatPhoneNumber_def c_def [symmetric])
    ultimately show ?thesis
      using formatPhoneNumber_plus [of r] by simp
  next
    case other
    have "formatPhoneNumber v = JStr (CHR ''+'' # ''62'' @ c)"
      using True other by (simp add: formatPhoneNumber_def c_def [symmetric])
    moreover have "strip_non_phone (''62'' @ c) = ''62'' @ c"
      using c strip_62 [of c] strip_plus [of "''62'' @ c"] by simp
    ultimately show ?thesis
      using formatPhoneNumber_plus [of "''62'' @ c"] by simp
  qed
qed

lemma normalize_idem: "normalize (normalize x) = normalize x"
proof -
  define c where "c = strip_non_phone x"
  have c: "strip_non_phone c = c"
    by (simp add: c_def strip_non_phone_idem)
  have d: "strip_non_phone (drop 1 c) = drop 1 c"
    unfolding c_def by (rule strip_non_phone_drop)
  consider (zero) "startsWith c ''0''"
    | (six) "\<not> startsWith c ''0''" "startsWith c ''62''"
    | (short) "\<not> startsWith c ''0''" "\<not> startsWith c ''62''"
        "\<not> startsWith c ''+'' \<and> 9 \<le> length c \<and> length c \<le> 13"
    | (other) "\<not> startsWith c ''0''" "\<not> startsWith c ''62''"
        "\<not> (\<not> startsWith c ''+'' \<and> 9 \<le> length c \<and> length c \<le> 13)"
    by blast
  then show ?thesis
  proof cases
    case zero
    have "normalize x = CHR ''+'' # ''62'' @ drop 1 c"
      using zero by (simp add: normalize_def c_def [symmetric])
    moreover have "strip_non_phone (''62'' @ drop 1 c) = ''62'' @ drop 1 c"
      using d strip_62 [of "drop 1 c"] strip_plus [of "''62'' @ drop 1 c"] by simp
    ultimately show ?thesis
      using normalize_plus [of "''62'' @ drop 1 c"] by simp
  next
    case six
    have "normalize x = CHR ''+'' # c"
      using six by (simp add: normalize_def c_def [symmetric])
    then show ?thesis
      using normalize_plus [OF c] by simp
  next
    case short
    have "normalize x = CHR ''+'' # ''62'' @ c"
      using short by (simp add: normalize_def c_def [symmetric])
    moreover have "strip_non_phone (''62'' @ c) = ''62'' @ c"
      using c strip_62 [of c] strip_plus [of "''62'' @ c"] by simp
    ultimately show ?thesis
      using normalize_plus [of "''62'' @ c"] by simp
  next
    case other
    have n: "normalize x = c"
      using other by (simp add: normalize_def c_def [symmetric] Let_def)
    have "normalize c = c"
      using other c by (simp add: normalize_def Let_def)
    then show ?thesis
      by (simp add: n)
  qed
qed

text \<open>
  Claim C10. Normalising a phone number twice gives what normalising it once gives: for
  every input string \<open>x\<close>, the worker's \<^verbatim>\<open>formatPhoneNumber\<close> and the widget's
  \<^verbatim>\<open>PhoneFormatter.normalize\<close> both return an already normalised value unchanged.
  (For the empty string the worker returns \<^verbatim>\<open>null\<close>, and \<^verbatim>\<open>null\<close> again for \<^verbatim>\<open>null\<close>.)
\<close>

theorem normalization_idempotent:
  "formatPhoneNumber (formatPhoneNumber (JStr x)) = formatPhoneNumber (JStr x)
   \<and> normalize (normalize x) = normalize x"
  by (simp add: formatPhoneNumber_idem normalize_idem)

section \<open>The result caches\<close>

lemma getItem_setItem: "getItem (setItem k v st) k = Some v"
  by (induction st) (auto simp: getItem_def)

lemma getItem_removeItem: "getItem (removeItem k st) k = None"
  by (simp add: getItem_def removeItem_def map_of_eq_None_iff image_iff)

lemma isAvailable_fresh:
  "available m \<noteq> Some False \<Longrightarrow>
   isAvailable test True m st
     = (True, m\<lparr>available := Some True\<rparr>,
        if available m = None then removeItem test st else st)"
  by (cases "available m") (auto simp: isAvailable_def)

lemma isAvailable_known:
  "available m = Some True \<Longrightarrow> isAvailable test w m st = (True, m, st)"
  by (simp add: isAvailable_def)

lemma cache_get_hit:
  assumes "available m = Some True"
    and "getItem st (KEY_PREFIX cfg @ subj) = Some (Obj (Some v) (Some e) t)"
    and "now \<le> e"
  shows "cache_get cfg test w now subj m st = (CValue v, m, st)"
  using assms by (simp add: cache_get_def isAvailable_known expired_def)

lemma cache_get_expired:
  assumes "available m = Some True"
    and "getItem st (KEY_PREFIX cfg @ subj) = Some (Obj r (Some e) t)"
    and "e < now"
  shows "cache_get cfg test w now subj m st
           = (CNull, m, removeItem (KEY_PREFIX cfg @ subj) st)"
  using assms by (simp add: cache_get_def isAvailable_known expired_def)

lemma email_cache_set_writes:
  assumes "available m \<noteq> Some False"
  shows "email_cache_set True now1 now2 email v True m st
            = (m\<lparr>available := Some True\<rparr>,
               setItem (''email_v_'' @ email) (Obj (Some v) (Some (now1 + 600000)) (Some now2))
                 (if available m = None then removeItem ''__email_test__'' st else st))"
  using assms
  by (simp add: email_cache_set_def isAvailable_fresh email_cache_config_def cache_data_def)

lemma wa_cache_set_writes:
  assumes "available m \<noteq> Some False"
  shows "wa_cache_set cfg True now1 now2 now3 number v True m st
            = (m\<lparr>available := Some True, cleanupScheduled := True\<rparr>,
               setItem (KEY_PREFIX cfg @ number)
                 (Obj (Some v) (Some (now1 + SUCCESS_TTL cfg)) (Some now2))
                 (if available m = None then removeItem ''__wa_test__'' st else st))"
  using assms
  by (simp add: wa_cache_set_def isAvailable_fresh cache_data_def Let_def)

text \<open>
  Claim C7. An entry written by \<^verbatim>\<open>set\<close> as a success at time \<open>t0\<close>, with a success
  lifetime of 600000 ms, is returned by \<^verbatim>\<open>get\<close> at \<open>t0 + 599999\<close>, storage untouched (the
  validators return on such a hit before they reach their \<^verbatim>\<open>fetch\<close>); at \<open>t0 + 600001\<close>
  \<^verbatim>\<open>get\<close> returns \<^verbatim>\<open>null\<close> and has removed the entry from storage. This holds for the
  email cache and for the WhatsApp cache, provided storage is writable when \<^verbatim>\<open>set\<close> runs
  and was not found unavailable before.
\<close>

theorem cache_ttl:
  assumes "available m \<noteq> Some False" and "SUCCESS_TTL cfg = 600000"
  shows "(case email_cache_set True t0 t1 email v True m st of (m1, st1) \<Rightarrow>
            cache_get email_cache_config ''__email_test__'' w (t0 + 599999) email m1 st1
              = (CValue v, m1, st1)
          \<and> (case cache_get email_cache_config ''__email_test__'' w (t0 + 600001) email m1 st1
               of (r, m2, st2) \<Rightarrow>
                 r = CNull \<and> getItem st2 (''email_v_'' @ email) = None
                 \<and> st2 = removeItem (''email_v_'' @ email) st1))
       \<and> (case wa_cache_set cfg True t0 t1 t2 number v True m st of (m1, st1) \<Rightarrow>
            cache_get cfg ''__wa_test__'' w (t0 + 599999) number m1 st1 = (CValue v, m1, st1)
          \<and> (case cache_get cfg ''__wa_test__'' w (t0 + 600001) number m1 st1
               of (r, m2, st2) \<Rightarrow>
                 r = CNull \<and> getItem st2 (KEY_PREFIX cfg @ number) = None
                 \<and> st2 = removeItem (KEY_PREFIX cfg @ number) st1))"
proof -
  define st0 where "st0 = (if available m = None then removeItem ''__email_test__'' st else st)"
  define st0' where "st0' = (if available m = None then removeItem ''__wa_test__'' st else st)"
  have e: "email_cache_set True t0 t1 email v True m st
      = (m\<lparr>available := Some True\<rparr>,
         setItem (''email_v_'' @ email) (Obj (Some v) (Some (t0 + 600000)) (Some t1)) st0)"
    unfolding st0_def by (rule email_cache_set_writes [OF assms(1)])
  have wa: "wa_cache_set cfg True t0 t1 t2 number v True m st
      = (m\<lparr>available := Some True, cleanupScheduled := True\<rparr>,
         setItem (KEY_PREFIX cfg @ number) (Obj (Some v) (Some (t0 + 600000)) (Some t1)) st0')"
    unfolding st0'_def
    using wa_cache_set_writes [OF assms(1), of cfg t0 t1 t2 number v st] assms(2) by simp
  have p: "KEY_PREFIX email_cache_config = ''email_v_''"
    by (simp add: email_cache_config_def)
  have "?thesis \<longleftrightarrow> True"
    unfolding e wa prod.case
    by (subst cache_get_hit [where e = "t0 + 600000" and t = "Some t1"];
        (subst cache_get_expired [where e = "t0 + 600000" and t = "Some t1" and r = "Some v"])?;
        simp add: getItem_setItem getItem_removeItem p)+
  then show ?thesis by simp
qed

theorem cache_ttl_witness:
  "(case email_cache_set True 1000 1000 ''a@b.co'' True True new_cache_manager [] of (m1, st1) \<Rightarrow>
      cache_get email_cache_config ''__email_test__'' True 600999 ''a@b.co'' m1 st1
        = (CValue True, m1, [(''email_v_a@b.co'', Obj (Some True) (Some 601000) (Some 1000))])
      \<and> cache_get email_cache_config ''__email_test__'' True 601001 ''a@b.co'' m1 st1
        = (CNull, m1, []))
   \<and> (case wa_cache_set (wa_cache_config None None) True 1000 1000 1000 ''0812345678'' True True
            new_cache_manager [] of (m1, st1) \<Rightarrow>
      cache_get (wa_cache_config None None) ''__wa_test__'' True 600999 ''0812345678'' m1 st1
        = (CValue True, m1, [(''wa_v_0812345678'', Obj (Some True) (Some 601000) (Some 1000))])
      \<and> cache_get (wa_cache_config None None) ''__wa_test__'' True 601001 ''0812345678'' m1 st1
        = (CNull, m1, []))"
  using cache_ttl [where m = new_cache_manager and cfg = "wa_cache_config None None"
      and ?t0.0 = 1000 and ?t1.0 = 1000 and ?t2.0 = 1000 and v = True and st = "[]" and w = True]
  by (simp add: new_cache_manager_def wa_cache_config_def or_default_def email_cache_set_def
      wa_cache_set_def isAvailable_def email_cache_config_def cache_data_def removeItem_def
      cache_get_def getItem_def expired_def)

lemma foldl_remove_expired_id:
  "(\<And>k. k \<in> set ks \<Longrightarrow> remove_expired now st k = st)
   \<Longrightarrow> foldl (remove_expired now) st ks = st"
  by (induction ks) simp_all

lemma live_entry_kept: "live_entry now st k \<Longrightarrow> remove_expired now st k = st"
  by (auto simp: live_entry_def remove_expired_def expired_def
      split: option.splits stored.splits)

lemma sort_key_hd_min:
  fixes f :: "'a \<Rightarrow> int"
  assumes "xs \<noteq> []"
  shows "hd (sort_key f xs) \<in> set xs \<and> (\<forall>y \<in> set xs. f (hd (sort_key f xs)) \<le> f y)"
proof -
  have "sort_key f xs \<noteq> []"
    using assms by (metis length_0_conv length_sort)
  then obtain z zs where z: "sort_key f xs = z # zs"
    by (cases "sort_key f xs") auto
  have "sorted (map f (z # zs))"
    using sorted_sort_key [of f xs] by (simp add: z)
  then have "\<forall>y \<in> set (z # zs). f z \<le> f y"
    by auto
  moreover have "set (z # zs) = set xs"
    using set_sort [of f xs] by (simp add: z)
  ultimately have "z \<in> set xs \<and> (\<forall>y \<in> set xs. f z \<le> f y)"
    by (metis list.set_intros(1))
  then show ?thesis
    by (simp add: z)
qed

lemma take_one_hd: "xs \<noteq> [] \<Longrightarrow> take (Suc 0) xs = [hd xs]"
  by (cases xs) simp_all

lemma prefixed_keys_removeItem:
  "prefixed_keys p (removeItem k st) = filter (\<lambda>x. x \<noteq> k) (prefixed_keys p st)"
  by (induction st) (auto simp: prefixed_keys_def removeItem_def)

lemma length_filter_neq:
  "distinct xs \<Longrightarrow> x \<in> set xs \<Longrightarrow> length (filter (\<lambda>y. y \<noteq> x) xs) = length xs - 1"
proof (induction xs)
  case Nil
  then show ?case by simp
next
  case (Cons a xs)
  show ?case
  proof (cases "a = x")
    case True
    then have "x \<notin> set xs"
      using Cons.prems by simp
    then have "filter (\<lambda>y. y \<noteq> x) xs = xs"
      by (intro filter_True) auto
    then show ?thesis
      using True by simp
  next
    case False
    then have "x \<in> set xs" "distinct xs"
      using Cons.prems by auto
    then have "length (filter (\<lambda>y. y \<noteq> x) xs) = length xs - 1" "xs \<noteq> []"
      using Cons.IH by auto
    then show ?thesis
      using False by (cases xs) auto
  qed
qed

lemma distinct_prefixed_keys: "distinct (map fst st) \<Longrightarrow> distinct (prefixed_keys p st)"
  by (simp add: prefixed_keys_def)

lemma setItem_fresh: "k \<notin> fst ` set st \<Longrightarrow> setItem k v st = st @ [(k, v)]"
  by (induction st) auto

lemma example_entry_inj: "fst (example_entry i) = fst (example_entry j) \<Longrightarrow> i = j"
proof -
  assume "fst (example_entry i) = fst (example_entry j)"
  then have "length (fst (example_entry i)) = length (fst (example_entry j))"
    by simp
  then show "i = j"
    by (simp add: example_entry_def)
qed

lemma filled_cache_eq:
  "filled_cache n
     = (\<lparr>available = Some True, cleanupScheduled = (0 < n)\<rparr>, map example_entry [1..<Suc n])"
proof (induction n)
  case 0
  then show ?case by (simp add: new_cache_manager_def)
next
  case (Suc n)
  have "\<And>j. j \<in> set [1..<Suc n] \<Longrightarrow> fst (example_entry j) \<noteq> fst (example_entry (Suc n))"
  proof
    fix j assume "j \<in> set [1..<Suc n]" "fst (example_entry j) = fst (example_entry (Suc n))"
    then show False
      using example_entry_inj [of j "Suc n"] by simp
  qed
  then have fresh: "fst (example_entry (Suc n)) \<notin> fst ` set (map example_entry [1..<Suc n])"
    unfolding set_map image_image by (metis imageE)
  have key: "KEY_PREFIX (wa_cache_config None None) @ ''081111111'' @ replicate (Suc n) CHR ''1''
      = fst (example_entry (Suc n))"
    by (simp add: wa_cache_config_def example_entry_def)
  have data: "cache_data (wa_cache_config None None) False False (int (Suc n)) (int (Suc n))
      = snd (example_entry (Suc n))"
    by (simp add: cache_data_def wa_cache_config_def or_default_def example_entry_def)
  have eq: "filled_cache (Suc n)
      = (\<lparr>available = Some True, cleanupScheduled = True\<rparr>,
         setItem (fst (example_entry (Suc n))) (snd (example_entry (Suc n)))
           (map example_entry [1..<Suc n]))"
    unfolding filled_cache.simps Suc.IH prod.case wa_cache_set_def
    by (simp only: key data) (simp add: isAvailable_def)
  have "map example_entry [1..<Suc (Suc n)]
      = map example_entry [1..<Suc n] @ [example_entry (Suc n)]"
    by simp
  then show ?case
    unfolding eq setItem_fresh [OF fresh] by (simp del: upt_Suc)
qed

lemma example_keys:
  "prefixed_keys ''wa_v_'' (map example_entry is) = map (\<lambda>i. fst (example_entry i)) is"
  by (induction "is") (simp_all add: prefixed_keys_def example_entry_def startsWith_def)

lemma example_getItem:
  "i \<in> set is \<Longrightarrow>
   getItem (map example_entry is) (fst (example_entry i)) = Some (snd (example_entry i))"
proof (induction "is")
  case Nil
  then show ?case by simp
next
  case (Cons j js)
  then show ?case
    using example_entry_inj [of j i] by (cases "i = j") (auto simp: getItem_def)
qed

lemma live_entry_stored:
  assumes "live_entry now st k"
  shows "\<exists>r e t. getItem st k = Some (Obj r e (Some t)) \<and> timestamp_of st k = t"
  using assms
  by (auto simp: live_entry_def timestamp_of_def split: option.splits stored.splits)

lemma prefixed_keys_removeItem_set:
  "set (prefixed_keys p (removeItem k st)) = set (prefixed_keys p st) - {k}"
  by (auto simp: prefixed_keys_removeItem)

text \<open>
  The cache of the WhatsApp widget evicts by capacity. When it holds 51 keys under its
  prefix, none of them expired, its \<^verbatim>\<open>cleanup\<close> removes exactly one of them and no other
  key, so that 50 remain, and the one removed has the earliest write timestamp: the
  \<^verbatim>\<open>timestamp\<close> stored with it is not later than the one stored with any of the 51
  entries.
\<close>

theorem cleanup_evicts_oldest:
  assumes "available m = Some True" and "MAX_SIZE cfg = 50"
    and "distinct (map fst st)"
    and "length (prefixed_keys (KEY_PREFIX cfg) st) = 51"
    and "list_all (live_entry now st) (prefixed_keys (KEY_PREFIX cfg) st)"
  shows "\<exists>k r e t. k \<in> set (prefixed_keys (KEY_PREFIX cfg) st)
           \<and> getItem st k = Some (Obj r e (Some t))
           \<and> cleanup cfg w now m st = (m, filter (\<lambda>entry. fst entry \<noteq> k) st)
           \<and> length (prefixed_keys (KEY_PREFIX cfg) (snd (cleanup cfg w now m st))) = 50
           \<and> set (prefixed_keys (KEY_PREFIX cfg) (snd (cleanup cfg w now m st)))
               = set (prefixed_keys (KEY_PREFIX cfg) st) - {k}
           \<and> list_all (\<lambda>k'. \<exists>r' e' t'. getItem st k' = Some (Obj r' e' (Some t')) \<and> t \<le> t')
                (prefixed_keys (KEY_PREFIX cfg) st)"
proof -
  define keys where "keys = prefixed_keys (KEY_PREFIX cfg) st"
  define items where "items = map (\<lambda>k. (k, timestamp_of st k)) keys"
  define k where "k = fst (hd (sort_key snd items))"
  have len: "length keys = 51"
    using assms(4) by (simp add: keys_def)
  then have ne: "items \<noteq> []"
    by (auto simp: items_def)
  have live: "\<And>k'. k' \<in> set keys \<Longrightarrow> live_entry now st k'"
    using assms(5) by (simp add: keys_def list_all_iff)
  have pass1: "foldl (remove_expired now) st keys = st"
    by (intro foldl_remove_expired_id live_entry_kept live)
  have hd_in: "hd (sort_key snd items) \<in> set items"
    and hd_min: "\<forall>y \<in> set items. snd (hd (sort_key snd items)) \<le> snd y"
    using sort_key_hd_min [OF ne, of snd] by simp_all
  have k_in: "k \<in> set keys"
    using hd_in by (auto simp: k_def items_def)
  have k_ts: "snd (hd (sort_key snd items)) = timestamp_of st k"
    using hd_in by (auto simp: k_def items_def)
  have min: "\<forall>k' \<in> set keys. timestamp_of st k \<le> timestamp_of st k'"
    using hd_min unfolding k_ts by (simp add: items_def)
  obtain r e t where stored: "getItem st k = Some (Obj r e (Some t))" "timestamp_of st k = t"
    using live_entry_stored [OF live [OF k_in]] by blast
  have earliest: "\<exists>r' e' t'. getItem st k' = Some (Obj r' e' (Some t')) \<and> t \<le> t'"
    if "k' \<in> set keys" for k'
    using live_entry_stored [OF live [OF that]] min that stored(2) by auto
  have sorted_ne: "sort_key snd items \<noteq> []"
    using ne by (metis length_0_conv length_sort)
  have "length (sort_key snd items) - 50 = Suc 0"
    using len by (simp add: items_def)
  then have rm: "take (length (sort_key snd items) - 50) (sort_key snd items)
      = [hd (sort_key snd items)]"
    using take_one_hd [OF sorted_ne] by simp
  have c: "cleanup cfg w now m st = (m, removeItem k st)"
    using len assms(1,2) rm
    by (simp add: cleanup_def isAvailable_known keys_def [symmetric] pass1
        items_def [symmetric] k_def Let_def)
  have l: "length (prefixed_keys (KEY_PREFIX cfg) (removeItem k st)) = 50"
    using length_filter_neq [OF distinct_prefixed_keys [OF assms(3)], of k "KEY_PREFIX cfg"]
      k_in len
    by (simp add: prefixed_keys_removeItem keys_def)
  show ?thesis
    using c k_in stored(1) l earliest prefixed_keys_removeItem_set [of "KEY_PREFIX cfg" k st]
    unfolding keys_def list_all_iff
    by (intro exI [of _ k] exI [of _ r] exI [of _ e] exI [of _ t])
      (simp add: removeItem_def)
qed

theorem cleanup_evicts_oldest_example:
  "available (fst (filled_cache 51)) = Some True
   \<and> length (prefixed_keys ''wa_v_'' (snd (filled_cache 51))) = 51
   \<and> getItem (snd (filled_cache 51)) ''wa_v_0811111111''
       = Some (Obj (Some False) (Some 300001) (Some 1))
   \<and> getItem (snd (filled_cache 51)) ''wa_v_08111111111''
       = Some (Obj (Some False) (Some 300002) (Some 2))
   \<and> cleanup (wa_cache_config None None) True 52 (fst (filled_cache 51)) (snd (filled_cache 51))
       = (fst (filled_cache 51),
          filter (\<lambda>entry. fst entry \<noteq> ''wa_v_0811111111'') (snd (filled_cache 51)))
   \<and> length (prefixed_keys ''wa_v_''
         (snd (cleanup (wa_cache_config None None) True 52 (fst (filled_cache 51))
                (snd (filled_cache 51))))) = 50"
proof -
  define st where "st = snd (filled_cache 51)"
  have st: "st = map example_entry [1..<52]"
    by (simp add: st_def filled_cache_eq)
  have p: "KEY_PREFIX (wa_cache_config None None) = ''wa_v_''"
    by (simp add: wa_cache_config_def)
  have 1: "available (fst (filled_cache 51)) = Some True"
    by (simp add: filled_cache_eq)
  have 2: "MAX_SIZE (wa_cache_config None None) = 50"
    by (simp add: wa_cache_config_def)
  have 3: "distinct (map fst st)"
    unfolding st by (auto simp: distinct_map inj_on_def dest: example_entry_inj)
  have 4: "length (prefixed_keys (KEY_PREFIX (wa_cache_config None None)) st) = 51"
    unfolding st p example_keys by simp
  have 5: "list_all (live_entry 52 st) (prefixed_keys (KEY_PREFIX (wa_cache_config None None)) st)"
    unfolding st p example_keys list_all_iff
  proof
    fix k assume "k \<in> set (map (\<lambda>i. fst (example_entry i)) [1..<52])"
    then obtain i where i: "i \<in> set [1..<52]" "k = fst (example_entry i)"
      by auto
    show "live_entry 52 (map example_entry [1..<52]) k"
      unfolding i(2) live_entry_def example_getItem [OF i(1)]
      by (simp add: example_entry_def)
  qed
  have first: "fst (example_entry 1) = ''wa_v_0811111111''"
    "snd (example_entry 1) = Obj (Some False) (Some 300001) (Some 1)"
    "fst (example_entry 2) = ''wa_v_08111111111''"
    "snd (example_entry 2) = Obj (Some False) (Some 300002) (Some 2)"
    by (simp_all add: example_entry_def numeral_2_eq_2)
  have g1: "getItem st ''wa_v_0811111111'' = Some (Obj (Some False) (Some 300001) (Some 1))"
    using example_getItem [of 1 "[1..<52]"] unfolding first st by simp
  have g2: "getItem st ''wa_v_08111111111'' = Some (Obj (Some False) (Some 300002) (Some 2))"
    using example_getItem [of 2 "[1..<52]"] unfolding first st by simp
  obtain k r e t where k: "k \<in> set (prefixed_keys ''wa_v_'' st)"
    and stored: "getItem st k = Some (Obj r e (Some t))"
    and c: "cleanup (wa_cache_config None None) True 52 (fst (filled_cache 51)) st
        = (fst (filled_cache 51), filter (\<lambda>entry. fst entry \<noteq> k) st)"
    and l: "length (prefixed_keys ''wa_v_''
        (snd (cleanup (wa_cache_config None None) True 52 (fst (filled_cache 51)) st))) = 50"
    and earliest: "list_all (\<lambda>k'. \<exists>r' e' t'. getItem st k' = Some (Obj r' e' (Some t')) \<and> t \<le> t')
        (prefixed_keys ''wa_v_'' st)"
    using cleanup_evicts_oldest [OF 1 2 3 4 5, of True] unfolding p by blast
  obtain i where i: "i \<in> set [1..<52]" "k = fst (example_entry i)"
    using k unfolding st example_keys by auto
  have "getItem st k = Some (snd (example_entry i))"
    unfolding st i(2) by (rule example_getItem [OF i(1)])
  then have t: "t = int i"
    using stored by (simp add: example_entry_def)
  have "(1::nat) \<in> set [1..<52]"
    by simp
  then have "fst (example_entry 1) \<in> (\<lambda>i. fst (example_entry i)) ` set [1..<52]"
    by (rule imageI)
  then have "''wa_v_0811111111'' \<in> set (prefixed_keys ''wa_v_'' st)"
    unfolding st example_keys set_map first(1) .
  then have "t \<le> 1"
    using earliest g1 unfolding list_all_iff by fastforce
  then have "i = 1"
    using t i(1) by simp
  then have kk: "k = ''wa_v_0811111111''"
    using i(2) first(1) by simp
  from 1 4 g1 g2 c l show ?thesis
    unfolding p st_def kk by blast
qed

lemma email_example_inj: "fst (email_example i) = fst (email_example j) \<Longrightarrow> i = j"
proof -
  assume "fst (email_example i) = fst (email_example j)"
  then have "length (fst (email_example i)) = length (fst (email_example j))"
    by simp
  then show "i = j"
    by (simp add: email_example_def)
qed

lemma email_filled_eq:
  "email_filled n = (\<lparr>available = Some True, cleanupScheduled = False\<rparr>,
     map email_example [1..<Suc n])"
proof (induction n)
  case 0
  then show ?case by (simp add: new_cache_manager_def)
next
  case (Suc n)
  have "\<And>j. j \<in> set [1..<Suc n] \<Longrightarrow> fst (email_example j) \<noteq> fst (email_example (Suc n))"
  proof
    fix j assume "j \<in> set [1..<Suc n]" "fst (email_example j) = fst (email_example (Suc n))"
    then show False
      using email_example_inj [of j "Suc n"] by simp
  qed
  then have fresh: "fst (email_example (Suc n)) \<notin> fst ` set (map email_example [1..<Suc n])"
    unfolding set_map image_image by (metis imageE)
  have key: "KEY_PREFIX email_cache_config @ replicate (Suc n) CHR ''a'' @ ''@x.com''
      = fst (email_example (Suc n))"
    by (simp add: email_cache_config_def email_example_def)
  have data: "cache_data email_cache_config True True (int (Suc n)) (int (Suc n))
      = snd (email_example (Suc n))"
    by (simp add: cache_data_def email_cache_config_def email_example_def)
  have eq: "email_filled (Suc n)
      = (\<lparr>available = Some True, cleanupScheduled = False\<rparr>,
         setItem (fst (email_example (Suc n))) (snd (email_example (Suc n)))
           (map email_example [1..<Suc n]))"
    unfolding email_filled.simps Suc.IH prod.case email_cache_set_def
    by (simp only: key data) (simp add: isAvailable_def)
  have "map email_example [1..<Suc (Suc n)]
      = map email_example [1..<Suc n] @ [email_example (Suc n)]"
    by simp
  then show ?case
    unfolding eq setItem_fresh [OF fresh] by (simp del: upt_Suc)
qed

lemma email_example_keys:
  "prefixed_keys ''email_v_'' (map email_example is) = map (\<lambda>i. fst (email_example i)) is"
  by (induction "is") (simp_all add: prefixed_keys_def email_example_def startsWith_def)

lemma email_example_getItem:
  "i \<in> set is \<Longrightarrow>
   getItem (map email_example is) (fst (email_example i)) = Some (snd (email_example i))"
proof (induction "is")
  case Nil
  then show ?case by simp
next
  case (Cons j js)
  then show ?case
    using email_example_inj [of j i] by (cases "i = j") (auto simp: getItem_def)
qed

text \<open>
  Claim C8 fails on the cache of the email widget, which never evicts by capacity. Its
  configuration sets \<^verbatim>\<open>CONFIG.CACHE.MAX_SIZE\<close> to 50 (line 15), but nothing reads it: the
  \<^verbatim>\<open>CacheManager\<close> (lines 99 to 149) has the methods \<^verbatim>\<open>isAvailable\<close>, \<^verbatim>\<open>get\<close> and \<^verbatim>\<open>set\<close>
  only, and no cleanup as the WhatsApp widget's has. After 51 addresses have been
  stored, one per millisecond, 51 entries are held, and the one written first is still
  served.
\<close>

theorem email_cache_never_evicts:
  "MAX_SIZE email_cache_config = 50
   \<and> length (prefixed_keys ''email_v_'' (snd (email_filled 51))) = 51
   \<and> cache_get email_cache_config ''__email_test__'' True 52 ''a@x.com''
         (fst (email_filled 51)) (snd (email_filled 51))
       = (CValue True, fst (email_filled 51), snd (email_filled 51))"
proof -
  have first: "fst (email_example 1) = ''email_v_a@x.com''"
    "snd (email_example 1) = Obj (Some True) (Some 600001) (Some 1)"
    by (simp_all add: email_example_def)
  have g: "getItem (map email_example [1..<52]) ''email_v_a@x.com''
      = Some (Obj (Some True) (Some 600001) (Some 1))"
    using email_example_getItem [of 1 "[1..<52]"] unfolding first by simp
  show ?thesis
    unfolding email_filled_eq fst_conv snd_conv email_example_keys
    using g by (simp add: email_cache_config_def cache_get_def isAvailable_def expired_def)
qed

section \<open>The validation queue\<close>

lemma remove_first_length: "length (remove_first v is) \<le> length is"
  by (induction "is") auto

lemma remove_first_subset: "set (remove_first v is) \<subseteq> set is"
  by (induction "is") auto

lemma remove_first_distinct:
  "distinct (map subject is) \<Longrightarrow> distinct (map subject (remove_first v is))"
proof (induction "is")
  case Nil
  then show ?case by simp
next
  case (Cons i "is")
  then show ?case
    using remove_first_subset [of v "is"] by auto
qed

lemma remove_first_gone:
  "distinct (map subject is) \<Longrightarrow> v \<notin> subject ` set (remove_first v is)"
  by (induction "is") auto

lemma remove_first_same_length:
  "length (remove_first v is) = length is \<Longrightarrow> remove_first v is = is"
proof (induction "is")
  case Nil
  then show ?case by simp
next
  case (Cons i "is")
  then show ?case
    using remove_first_length [of v "is"] by (auto split: if_splits)
qed

lemma cancel_gone:
  "distinct (map subject (queue q)) \<Longrightarrow> v \<notin> subject ` set (queue (cancel v q))"
  by (simp add: cancel_def remove_first_gone)

lemma cancel_length: "length (queue (cancel v q)) \<le> length (queue q)"
  by (simp add: cancel_def remove_first_length)

lemma cancel_distinct:
  "distinct (map subject (queue q)) \<Longrightarrow> distinct (map subject (queue (cancel v q)))"
  by (simp add: cancel_def remove_first_distinct)

lemma cancel_activeCount: "activeCount (cancel v q) = activeCount q"
  by (simp add: cancel_def)

lemma cancel_full:
  assumes "length (queue q) \<le> QUEUE_MAX_SIZE" and "\<not> length (queue (cancel v q)) < QUEUE_MAX_SIZE"
  shows "cancel v q = q"
proof -
  have len: "length (queue (cancel v q)) = length (queue q)"
    using assms cancel_length [of v q] by simp
  show ?thesis
  proof (cases "v = ''all''")
    case True
    then show ?thesis
      using assms(2) by (simp add: cancel_def QUEUE_MAX_SIZE_def)
  next
    case False
    then show ?thesis
      using len remove_first_same_length [of v "queue q"] by (simp add: cancel_def)
  qed
qed

lemma distinct_butlast: "distinct (map f xs) \<Longrightarrow> distinct (map f (butlast xs))"
  by (simp add: distinct_butlast map_butlast)

lemma process_inv:
  assumes "length (queue q) \<le> Suc QUEUE_MAX_SIZE" and "activeCount q = int (length (running s0))"
    and "length (running s0) \<le> 2" and "distinct (map subject (queue q))"
    and "length (queue q) \<le> QUEUE_MAX_SIZE \<or> length (running s0) < 2"
  shows "queue_inv (dispatched s0 (process q))"
  using assms
  by (auto simp: queue_inv_def dispatched_def process_def MAX_CONCURRENT_def
      QUEUE_MAX_SIZE_def distinct_butlast)

lemma queue_step_inv: "queue_inv s \<Longrightarrow> queue_inv (queue_step s e)"
proof (cases e)
  case (Add v cb)
  assume inv: "queue_inv s"
  show ?thesis
  proof (cases "length (queue (cancel v (qm s))) < QUEUE_MAX_SIZE")
    case True
    have d: "distinct (map subject (queue (cancel v (qm s)) @ [\<lparr>subject = v, callback = cb\<rparr>]))"
      using inv cancel_gone [of "qm s" v] cancel_distinct [of "qm s" v]
      by (auto simp: queue_inv_def)
    have "queue_inv (dispatched s
        (process (cancel v (qm s)
           \<lparr>queue := queue (cancel v (qm s)) @ [\<lparr>subject = v, callback = cb\<rparr>]\<rparr>)))"
      using inv True d
      by (intro process_inv) (auto simp: queue_inv_def cancel_activeCount QUEUE_MAX_SIZE_def)
    then show ?thesis
      using True by (simp add: Add add_def Let_def)
  next
    case False
    then show ?thesis
      using inv cancel_length [of v "qm s"] cancel_distinct [of "qm s" v]
      by (auto simp: Add add_def Let_def dispatched_def queue_inv_def cancel_activeCount)
  qed
next
  case (Cancel v)
  assume "queue_inv s"
  then show ?thesis
    using cancel_length [of v "qm s"] cancel_distinct [of "qm s" v]
    by (auto simp: Cancel queue_inv_def cancel_activeCount)
next
  case (Complete k)
  assume inv: "queue_inv s"
  show ?thesis
  proof (cases "k < length (running s)")
    case True
    define r where "r = take k (running s) @ drop (Suc k) (running s)"
    have r: "length (running s) = Suc (length r)"
      using True by (auto simp: r_def)
    have "queue_inv (dispatched (s\<lparr>running := r\<rparr>)
        (process ((qm s)\<lparr>activeCount := activeCount (qm s) - 1\<rparr>)))"
      using inv r by (intro process_inv) (auto simp: queue_inv_def)
    then show ?thesis
      using True by (simp add: Complete job_done_def r_def)
  next
    case False
    then show ?thesis
      using inv by (simp add: Complete)
  qed
qed

lemma queue_run_inv: "queue_inv (queue_run evs)"
proof -
  have "queue_inv s \<Longrightarrow> queue_inv (foldl queue_step s evs)" for s :: "'a queue_sys"
    by (induction evs arbitrary: s) (simp_all add: queue_step_inv)
  moreover have "queue_inv (init_queue_sys :: 'a queue_sys)"
    by (simp add: queue_inv_def init_queue_sys_def new_queue_manager_def)
  ultimately show ?thesis
    by (simp add: queue_run_def)
qed

lemma remove_first_filter:
  "distinct (map subject is) \<Longrightarrow> remove_first v is = filter (\<lambda>i. subject i \<noteq> v) is"
proof (induction "is")
  case Nil
  then show ?case by simp
next
  case (Cons i "is")
  show ?case
  proof (cases "subject i = v")
    case True
    then have "v \<notin> subject ` set is"
      using Cons.prems by auto
    then have "filter (\<lambda>i. subject i \<noteq> v) is = is"
      by (intro filter_True) auto
    then show ?thesis
      using True by simp
  next
    case False
    then show ?thesis
      using Cons by simp
  qed
qed

lemma cancel_queue:
  assumes "distinct (map subject (queue q))"
  shows "queue (cancel v q)
    = (if v = ''all'' then [] else filter (\<lambda>i. subject i \<noteq> v) (queue q))"
  using assms by (simp add: cancel_def remove_first_filter)

lemma filter_other_length:
  "length (filter (\<lambda>i. subject i \<noteq> v) is) < n
    \<longleftrightarrow> (v \<in> subject ` set is \<and> length (filter (\<lambda>i. subject i \<noteq> v) is) < n)
        \<or> (v \<notin> subject ` set is \<and> length is < n)"
proof (cases "v \<in> subject ` set is")
  case True
  then show ?thesis by simp
next
  case False
  then have "filter (\<lambda>i. subject i \<noteq> v) is = is"
    by (intro filter_True) auto
  then show ?thesis
    using False by simp
qed

text \<open>
  Claim C6, as amended. After any sequence of queue events: (1) \<^verbatim>\<open>add(value, job)\<close> first
  cancels: for a value other than \<^verbatim>\<open>"all"\<close> the pending entry for the value is removed
  and every other entry stays, in its place; for the value \<^verbatim>\<open>"all"\<close> every pending entry
  is removed. (2) It then queues the job only if fewer than 5 entries are left pending:
  with a free slot the job is dispatched at once, otherwise it is appended at the end.
  With 5 entries pending, none of them for the value, and a value other than \<^verbatim>\<open>"all"\<close>,
  the call changes nothing. (3) \<^verbatim>\<open>process\<close>, in any state \<open>q0\<close> of the manager,
  dispatches the entry at the end of the queue, the one queued last. (4) At most 2 jobs
  run at once and at most 5 are pending. (5) When a running job completes, its slot is
  freed and the entry queued last, if there is one, is dispatched.
\<close>

theorem queue_contract:
  fixes evs :: "'j queue_event list"
  shows "(let s = queue_run evs; q = qm s; q1 = cancel v q;
              new = \<lparr>subject = v, callback = cb\<rparr> in
      queue q1 = (if v = ''all'' then [] else filter (\<lambda>i. subject i \<noteq> v) (queue q))
    \<and> activeCount q1 = activeCount q
    \<and> length (filter (\<lambda>i. subject i = v) (queue q)) \<le> 1
    \<and> (if v = ''all'' \<or> v \<in> subject ` set (queue q) \<or> length (queue q) < 5
        then (if activeCount q < 2
              then add v cb q = (q1\<lparr>activeCount := activeCount q + 1\<rparr>, Some new)
              else add v cb q = (q1\<lparr>queue := queue q1 @ [new]\<rparr>, None))
        else add v cb q = (q, None))
    \<and> (\<forall>q' i. process q0 = (q', Some i) \<longrightarrow>
          queue q0 = queue q' @ [i] \<and> activeCount q' = activeCount q0 + 1
          \<and> activeCount q0 < 2)
    \<and> length (running s) \<le> 2 \<and> activeCount q = int (length (running s))
    \<and> length (queue q) \<le> 5
    \<and> (\<forall>k < length (running s).
          running (queue_step s (Complete k))
            = take k (running s) @ drop (Suc k) (running s)
              @ (if queue q = [] then [] else [last (queue q)])
        \<and> queue (qm (queue_step s (Complete k))) = butlast (queue q)
        \<and> activeCount (qm (queue_step s (Complete k)))
            = (if queue q = [] then activeCount q - 1 else activeCount q)))"
proof -
  define s where "s = queue_run evs"
  define q where "q = qm s"
  define q1 where "q1 = cancel v q"
  define new :: "'j item" where "new = \<lparr>subject = v, callback = cb\<rparr>"
  have inv: "queue_inv s"
    unfolding s_def by (rule queue_run_inv)
  then have len: "length (queue q) \<le> 5" and act: "activeCount q = int (length (running s))"
    and run: "length (running s) \<le> 2" and dist: "distinct (map subject (queue q))"
    by (simp_all add: queue_inv_def q_def QUEUE_MAX_SIZE_def)
  have 1: "queue q1 = (if v = ''all'' then [] else filter (\<lambda>i. subject i \<noteq> v) (queue q))"
    unfolding q1_def by (rule cancel_queue [OF dist])
  have a1: "activeCount q1 = activeCount q"
    by (simp add: q1_def cancel_activeCount)
  have "distinct (filter (\<lambda>x. x = v) (map subject (queue q)))"
    using dist by (rule distinct_filter)
  moreover have "set (filter (\<lambda>x. x = v) (map subject (queue q))) \<subseteq> {v}"
    by auto
  ultimately have "length (filter (\<lambda>x. x = v) (map subject (queue q))) \<le> 1"
    by (metis card_mono distinct_card finite.emptyI finite.insertI card.empty card.insert
        One_nat_def empty_iff)
  then have once: "length (filter (\<lambda>i. subject i = v) (queue q)) \<le> 1"
    by (simp add: filter_map comp_def)
  have room: "length (queue q1) < 5
      \<longleftrightarrow> v = ''all'' \<or> v \<in> subject ` set (queue q) \<or> length (queue q) < 5"
  proof (cases "v = ''all''")
    case True
    then show ?thesis by (simp add: 1)
  next
    case False
    have "v \<in> subject ` set (queue q)
        \<Longrightarrow> length (filter (\<lambda>i. subject i \<noteq> v) (queue q)) < length (queue q)"
      by (auto intro: length_filter_less)
    then show ?thesis
      using False len filter_other_length [of v "queue q" 5] by (auto simp: 1)
  qed
  have 2: "if v = ''all'' \<or> v \<in> subject ` set (queue q) \<or> length (queue q) < 5
        then (if activeCount q < 2
              then add v cb q = (q1\<lparr>activeCount := activeCount q + 1\<rparr>, Some new)
              else add v cb q = (q1\<lparr>queue := queue q1 @ [new]\<rparr>, None))
        else add v cb q = (q, None)"
  proof (cases "length (queue q1) < 5")
    case True
    then show ?thesis
      using room
      by (simp add: add_def Let_def q1_def [symmetric] new_def [symmetric] QUEUE_MAX_SIZE_def
          process_def MAX_CONCURRENT_def a1)
  next
    case False
    then have "cancel v q = q"
      using cancel_full [of q v] len by (simp add: QUEUE_MAX_SIZE_def q1_def)
    then show ?thesis
      using False room by (simp add: add_def Let_def q1_def QUEUE_MAX_SIZE_def)
  qed
  have 3: "\<forall>q' i. process q0 = (q', Some i) \<longrightarrow>
      queue q0 = queue q' @ [i] \<and> activeCount q' = activeCount q0 + 1 \<and> activeCount q0 < 2"
    by (auto simp: process_def MAX_CONCURRENT_def split: if_splits)
  have 5: "\<forall>k < length (running s).
          running (queue_step s (Complete k))
            = take k (running s) @ drop (Suc k) (running s)
              @ (if queue q = [] then [] else [last (queue q)])
        \<and> queue (qm (queue_step s (Complete k))) = butlast (queue q)
        \<and> activeCount (qm (queue_step s (Complete k)))
            = (if queue q = [] then activeCount q - 1 else activeCount q)"
    using act run
    by (auto simp: job_done_def process_def dispatched_def MAX_CONCURRENT_def q_def)
  show ?thesis
    using 1 a1 once 2 3 5 len act run
    unfolding Let_def s_def [symmetric] q_def [symmetric] q1_def [symmetric] new_def [symmetric]
    by blast
qed

theorem queue_contract_witness:
  "(let s = queue_run [Add ''a'' (1::nat), Add ''b'' 2, Add ''c'' 3, Add ''d'' 4, Add ''e'' 5,
                       Add ''f'' 6, Add ''g'' 7];
        pending = [\<lparr>subject = ''c'', callback = 3\<rparr>, \<lparr>subject = ''d'', callback = 4\<rparr>,
                   \<lparr>subject = ''e'', callback = 5\<rparr>, \<lparr>subject = ''f'', callback = 6\<rparr>]
    in running s = [\<lparr>subject = ''a'', callback = 1\<rparr>, \<lparr>subject = ''b'', callback = 2\<rparr>]
     \<and> qm s = \<lparr>queue = pending @ [\<lparr>subject = ''g'', callback = 7\<rparr>], activeCount = 2\<rparr>
     \<and> queue (cancel ''h'' (qm s)) = queue (qm s)
     \<and> add ''h'' 8 (qm s) = (qm s, None)
     \<and> queue (cancel ''e'' (qm s))
         = [\<lparr>subject = ''c'', callback = 3\<rparr>, \<lparr>subject = ''d'', callback = 4\<rparr>,
            \<lparr>subject = ''f'', callback = 6\<rparr>, \<lparr>subject = ''g'', callback = 7\<rparr>]
     \<and> add ''e'' 9 (qm s)
         = (\<lparr>queue = [\<lparr>subject = ''c'', callback = 3\<rparr>, \<lparr>subject = ''d'', callback = 4\<rparr>,
                      \<lparr>subject = ''f'', callback = 6\<rparr>, \<lparr>subject = ''g'', callback = 7\<rparr>,
                      \<lparr>subject = ''e'', callback = 9\<rparr>], activeCount = 2\<rparr>, None)
     \<and> queue_step s (Complete 0)
         = \<lparr>qm = \<lparr>queue = pending, activeCount = 2\<rparr>,
            running = [\<lparr>subject = ''b'', callback = 2\<rparr>, \<lparr>subject = ''g'', callback = 7\<rparr>]\<rparr>
     \<and> process \<lparr>queue = pending, activeCount = 1\<rparr>
         = (\<lparr>queue = butlast pending, activeCount = 2\<rparr>, Some \<lparr>subject = ''f'', callback = 6\<rparr>))"
  using queue_contract [where v = "''h''" and cb = 8 and evs =
      "[Add ''a'' (1::nat), Add ''b'' 2, Add ''c'' 3, Add ''d'' 4, Add ''e'' 5, Add ''f'' 6,
        Add ''g'' 7]" and ?q0.0 =
      "\<lparr>queue = [\<lparr>subject = ''c'', callback = 3\<rparr>, \<lparr>subject = ''d'', callback = 4\<rparr>,
                 \<lparr>subject = ''e'', callback = 5\<rparr>, \<lparr>subject = ''f'', callback = 6\<rparr>],
        activeCount = 1\<rparr>"]
  by (simp add: queue_run_def init_queue_sys_def new_queue_manager_def add_def cancel_def
      process_def dispatched_def job_done_def Let_def QUEUE_MAX_SIZE_def MAX_CONCURRENT_def)

text \<open>
  The claim as stated fails for the value \<^verbatim>\<open>"all"\<close>, for which \<^verbatim>\<open>cancel\<close> empties the queue
  (lines 165 to 168 and 1331 to 1334). With 5 entries pending, \<^verbatim>\<open>add("all", job)\<close> is no
  no-op: the 5 entries are dropped and the job is queued.
\<close>

theorem queue_contract_counterexample:
  "(let s = queue_run [Add ''a'' (1::nat), Add ''b'' 2, Add ''c'' 3, Add ''d'' 4, Add ''e'' 5,
                       Add ''f'' 6, Add ''g'' 7]
    in map subject (queue (qm s)) = [''c'', ''d'', ''e'', ''f'', ''g'']
     \<and> activeCount (qm s) = 2
     \<and> add ''all'' 8 (qm s)
         = (\<lparr>queue = [\<lparr>subject = ''all'', callback = 8\<rparr>], activeCount = 2\<rparr>, None)
     \<and> add ''all'' 8 (qm s) \<noteq> (qm s, None))"
  by (simp add: queue_run_def init_queue_sys_def new_queue_manager_def add_def cancel_def
      process_def dispatched_def job_done_def Let_def QUEUE_MAX_SIZE_def MAX_CONCURRENT_def)

section \<open>The edge proxy\<close>

lemma error_response_status: "status (error_response m origin) = error_status m"
  by (simp add: error_response_def error_status_def json_response_def)

lemma format_truthy:
  "truthy number \<Longrightarrow> \<exists>p. formatPhoneNumber number = JStr p \<and> p \<noteq> []"
  by (auto simp: formatPhoneNumber_def Let_def startsWith_def)

lemma error_status_timeout: "error_status ''API timeout after 8 seconds'' = 504"
  by (simp add: error_status_def startsWith_def)

lemma error_status_html: "error_status ''Received HTML instead of JSON'' = 502"
  by (simp add: error_status_def startsWith_def)

lemma call_status:
  "status (case callStarsenderAPI E up of
             Inl thrown \<Rightarrow> error_response thrown origin
           | Inr (d, s) \<Rightarrow>
               if null_body_status s then error_response (null_body_message E) origin
               else json_response (Data d) s origin)
   = upstream_status E up"
  by (cases up)
    (simp_all add: callStarsenderAPI_def upstream_status_def error_response_status
      error_status_timeout error_status_html json_response_def split: sum.splits)

lemma processValidation_status:
  "status (processValidation E e upstream req origin) =
     (if \<not> includes_str (or_else (content_type req) '''') ''application/json'' then 400
      else if body_text req = [] then 400
      else case JSON_parse E (body_text req) of
        Inl x \<Rightarrow> 400
      | Inr b \<Rightarrow>
          (case number_of E b of
             Inl thrown \<Rightarrow> error_status thrown
           | Inr number \<Rightarrow>
               if \<not> truthy number then 400
               else if key_missing e then 500
               else upstream_status E (upstream (sent_number number) (api_key e))))"
proof (cases "parseRequestBody E req")
  case (Inl message)
  then show ?thesis
    by (auto simp: processValidation_def parseRequestBody_def Let_def json_response_def
        split: if_splits sum.splits)
next
  case (Inr b)
  then have p: "includes_str (or_else (content_type req) '''') ''application/json''"
    "body_text req \<noteq> []" "JSON_parse E (body_text req) = Inr b"
    by (auto simp: parseRequestBody_def Let_def split: if_splits sum.splits)
  show ?thesis
  proof (cases "number_of E b")
    case (Inl thrown)
    then show ?thesis
      using Inr p by (simp add: processValidation_def error_response_status)
  next
    case num: (Inr number)
    show ?thesis
    proof (cases "truthy number")
      case False
      then show ?thesis
        using Inr p num by (simp add: processValidation_def json_response_def)
    next
      case True
      then obtain ph where ph: "formatPhoneNumber number = JStr ph" "ph \<noteq> []"
        using format_truthy by blast
      show ?thesis
      proof (cases "key_missing e")
        case True
        then show ?thesis
          using Inr p num \<open>truthy number\<close> ph
          by (auto simp: processValidation_def json_response_def key_missing_def
              split: option.splits)
      next
        case False
        then obtain k where k: "STARSENDER_DEVICE_KEY e = Some k" "k \<noteq> []"
          by (auto simp: key_missing_def split: option.splits)
        have "status (processValidation E e upstream req origin)
            = upstream_status E (upstream ph k)"
          using Inr num \<open>truthy number\<close> ph k
          by (simp add: processValidation_def call_status)
        then show ?thesis
          using p num \<open>truthy number\<close> False ph k
          by (simp add: sent_number_def api_key_def)
      qed
    qed
  qed
qed

lemma startsWith_sep:
  assumes "c \<notin> set p"
  shows "startsWith (a @ c # b) p = startsWith a p"
proof (cases "length p \<le> length a")
  case True
  then show ?thesis by (simp add: startsWith_def)
next
  case False
  then have tk: "take (length p) (a @ c # b) = a @ c # take (length p - Suc (length a)) b"
    by (simp add: take_Cons')
  have "a @ c # take (length p - Suc (length a)) b \<noteq> p"
  proof
    assume "a @ c # take (length p - Suc (length a)) b = p"
    then have "c \<in> set p"
      by (metis in_set_conv_decomp)
    then show False
      using assms by simp
  qed
  moreover have "take (length p) a \<noteq> p"
  proof
    assume "take (length p) a = p"
    then have "length (take (length p) a) = length p"
      by simp
    then show False
      using False by simp
  qed
  ultimately show ?thesis
    unfolding startsWith_def tk by simp
qed

lemma includes_str_sep:
  assumes "c \<notin> set p" and "p \<noteq> []"
  shows "includes_str (a @ c # b) p = (includes_str a p \<or> includes_str b p)"
proof (induction a)
  case Nil
  have "\<not> startsWith (c # b) p"
    using startsWith_sep [OF assms(1), of "[]" b] assms(2) by (simp add: startsWith_def)
  then show ?case
    using assms(2) by simp
next
  case (Cons x a)
  have "startsWith (x # a @ c # b) p = startsWith (x # a) p"
    using startsWith_sep [OF assms(1), of "x # a" b] by simp
  then show ?case
    using Cons by auto
qed

lemma includes_str_subset: "includes_str s p \<Longrightarrow> set p \<subseteq> set s"
proof (induction s)
  case Nil
  then show ?case by simp
next
  case (Cons c s)
  show ?case
  proof (cases "startsWith (c # s) p")
    case True
    then have "set p = set (take (length p) (c # s))"
      by (simp add: startsWith_def)
    then show ?thesis
      using set_take_subset by metis
  next
    case False
    then show ?thesis
      using Cons by auto
  qed
qed

lemma decimal_digits: "set (decimal n) \<subseteq> {c. is_digit c}"
proof (induction n rule: decimal.induct)
  case (1 n)
  have d: "k < 10 \<Longrightarrow> is_digit (char_of (48 + k))" for k :: nat
    by (simp add: is_digit_def)
  show ?case
  proof (cases "n < 10")
    case True
    then show ?thesis
      using d [of n] by (subst decimal.simps) simp
  next
    case False
    then show ?thesis
      using 1 d [of "n mod 10"] by (subst decimal.simps) auto
  qed
qed

lemma not_ok_status:
  assumes "\<not> includes_str statusText ''timeout''"
  shows "error_status (''API responded with '' @ decimal s @ '': '' @ statusText) = 502"
proof -
  let ?p = "''timeout''"
  have "\<not> includes_str (decimal s) ?p"
  proof
    assume "includes_str (decimal s) ?p"
    then have "CHR ''t'' \<in> set (decimal s)"
      using includes_str_subset by fastforce
    then show False
      using decimal_digits [of s] by (auto simp: is_digit_def)
  qed
  then have "\<not> includes_str ((decimal s @ '':'') @ CHR '' '' # statusText) ?p"
    using assms includes_str_sep [of "CHR '':''" ?p "decimal s" "[]"]
    by (subst includes_str_sep) simp_all
  moreover have "\<not> includes_str ''API responded with'' ?p"
    by (simp add: startsWith_def)
  ultimately have "\<not> includes_str (''API responded with'' @ CHR '' '' # (decimal s @ '':'') @ CHR '' '' # statusText) ?p"
    by (subst includes_str_sep) simp_all
  then have "\<not> includes_str (''API responded with '' @ decimal s @ '': '' @ statusText) ?p"
    by simp
  moreover have "includes_str (''API responded with '' @ decimal s @ '': '' @ statusText) ''API''"
    by (simp add: startsWith_def)
  ultimately show ?thesis
    by (simp add: error_status_def)
qed

lemma handleRequest_response:
  "fst (handleRequest E e upstream now req) =
     (if http_method req = ''OPTIONS'' then preflight (or_else (origin_header req) ''*'')
      else if http_method req \<noteq> ''POST''
        then json_response (MethodNotAllowed (http_method req)) 405 (or_else (origin_header req) ''*'')
      else if rate_refused e req now
        then json_response RateLimited 200 (or_else (origin_header req) ''*'')
      else processValidation E e upstream req (or_else (origin_header req) ''*''))"
  by (simp add: handleRequest_def Let_def WHITELISTED_IPS_def rate_refused_def
      checkRateLimit_def split: option.splits)

text \<open>
  Claim C9, as amended. The status of the proxy's response: \<^verbatim>\<open>OPTIONS\<close> gives 204; a
  method other than \<^verbatim>\<open>OPTIONS\<close> and \<^verbatim>\<open>POST\<close> gives 405; a \<^verbatim>\<open>POST\<close> that the rate limiter
  refuses gives 200, whatever its body; a \<^verbatim>\<open>POST\<close> that passes the limiter gives 400 for a
  content type without \<^verbatim>\<open>application/json\<close>, an empty body, a body that does not parse,
  or a missing or falsy \<^verbatim>\<open>number\<close>; 500 when the API key is missing; 504 when the upstream
  call times out; for every other failure the status follows from the error's message
  (504 if it contains \<open>timeout\<close>, 502 if it contains \<open>fetch\<close>, \<open>API\<close> or \<open>HTML\<close>, else 500),
  which gives 502 for an HTML body and for a non-2xx upstream status whose status text
  does not contain \<open>timeout\<close>; and when the upstream call succeeds, the upstream data is
  returned with the upstream status.
\<close>

theorem worker_status:
  "status (fst (handleRequest E e upstream now req)) =
     (if http_method req = ''OPTIONS'' then 204
      else if http_method req \<noteq> ''POST'' then 405
      else if rate_refused e req now then 200
      else if \<not> includes_str (or_else (content_type req) '''') ''application/json'' then 400
      else if body_text req = [] then 400
      else case JSON_parse E (body_text req) of
        Inl x \<Rightarrow> 400
      | Inr b \<Rightarrow>
          (case number_of E b of
             Inl thrown \<Rightarrow> error_status thrown
           | Inr number \<Rightarrow>
               if \<not> truthy number then 400
               else if key_missing e then 500
               else (case upstream (sent_number number) (api_key e) of
                  Aborted \<Rightarrow> 504
                | FetchFailed m \<Rightarrow> error_status m
                | Responded s statusText responseText \<Rightarrow>
                    if \<not> response_ok s
                      then error_status (''API responded with '' @ decimal s @ '': '' @ statusText)
                    else if includes_str responseText ''<html''
                            \<or> includes_str responseText ''<!DOCTYPE'' then 502
                    else (case JSON_parse E responseText of
                            Inl m \<Rightarrow> error_status m
                          | Inr d \<Rightarrow>
                              if null_body_status s then error_status (null_body_message E)
                              else s))))
   \<and> (\<forall>b number s statusText responseText d.
        http_method req = ''POST'' \<and> \<not> rate_refused e req now
        \<and> parseRequestBody E req = Inr b \<and> number_of E b = Inr number \<and> truthy number
        \<and> \<not> key_missing e
        \<and> upstream (sent_number number) (api_key e) = Responded s statusText responseText
        \<and> callStarsenderAPI E (Responded s statusText responseText) = Inr (d, s)
        \<and> \<not> null_body_status s
        \<longrightarrow> fst (handleRequest E e upstream now req)
              = \<lparr>status = s, body = Data d, allow_origin = or_else (origin_header req) ''*''\<rparr>)
   \<and> (\<forall>s statusText. \<not> response_ok s \<and> \<not> includes_str statusText ''timeout''
        \<longrightarrow> error_status (''API responded with '' @ decimal s @ '': '' @ statusText) = 502)"
proof (intro conjI allI impI)
  show "status (fst (handleRequest E e upstream now req)) =
     (if http_method req = ''OPTIONS'' then 204
      else if http_method req \<noteq> ''POST'' then 405
      else if rate_refused e req now then 200
      else if \<not> includes_str (or_else (content_type req) '''') ''application/json'' then 400
      else if body_text req = [] then 400
      else case JSON_parse E (body_text req) of
        Inl x \<Rightarrow> 400
      | Inr b \<Rightarrow>
          (case number_of E b of
             Inl thrown \<Rightarrow> error_status thrown
           | Inr number \<Rightarrow>
               if \<not> truthy number then 400
               else if key_missing e then 500
               else (case upstream (sent_number number) (api_key e) of
                  Aborted \<Rightarrow> 504
                | FetchFailed m \<Rightarrow> error_status m
                | Responded s statusText responseText \<Rightarrow>
                    if \<not> response_ok s
                      then error_status (''API responded with '' @ decimal s @ '': '' @ statusText)
                    else if includes_str responseText ''<html''
                            \<or> includes_str responseText ''<!DOCTYPE'' then 502
                    else (case JSON_parse E responseText of
                            Inl m \<Rightarrow> error_status m
                          | Inr d \<Rightarrow>
                              if null_body_status s then error_status (null_body_message E)
                              else s))))"
    by (simp add: handleRequest_response processValidation_status upstream_status_def
        preflight_def json_response_def split: sum.splits)
next
  fix b number s statusText responseText d
  assume a: "http_method req = ''POST'' \<and> \<not> rate_refused e req now
        \<and> parseRequestBody E req = Inr b \<and> number_of E b = Inr number \<and> truthy number
        \<and> \<not> key_missing e
        \<and> upstream (sent_number number) (api_key e) = Responded s statusText responseText
        \<and> callStarsenderAPI E (Responded s statusText responseText) = Inr (d, s)
        \<and> \<not> null_body_status s"
  then obtain ph where ph: "formatPhoneNumber number = JStr ph" "ph \<noteq> []"
    using format_truthy by blast
  obtain k where k: "STARSENDER_DEVICE_KEY e = Some k" "k \<noteq> []"
    using a by (auto simp: key_missing_def split: option.splits)
  show "fst (handleRequest E e upstream now req)
      = \<lparr>status = s, body = Data d, allow_origin = or_else (origin_header req) ''*''\<rparr>"
    using a ph k unfolding handleRequest_response
    by (simp add: processValidation_def sent_number_def api_key_def json_response_def)
next
  fix s statusText
  assume "\<not> response_ok s \<and> \<not> includes_str statusText ''timeout''"
  then show "error_status (''API responded with '' @ decimal s @ '': '' @ statusText) = 502"
    using not_ok_status [of statusText s] by blast
qed

lemma decimal_examples: "decimal 0 = ''0''" "decimal 500 = ''500''"
  by code_simp+

lemma example_rate_key: "rate_key (getClientIP (example_request m ct text)) 30000
    = ''rate_minute_203.0.113.7_0''"
  by (simp add: rate_key_def getClientIP_def example_request_def WINDOW_MINUTE_def
      decimal_examples)

lemma example_refused:
  "rate_refused (example_env n) (example_request m ct text) 30000 = (n \<ge> 10)"
  "rate_refused (example_env n\<lparr>STARSENDER_DEVICE_KEY := None\<rparr>) (example_request m ct text) 30000
     = (n \<ge> 10)"
  by (simp_all add: rate_refused_def example_rate_key getCount_def PER_MINUTE_def example_env_def)

theorem worker_status_witness:
  \<open>status (fst (handleRequest example_engine (example_env 0) (\<lambda>p k. Aborted) 30000
      (example_request ''OPTIONS'' '''' ''''))) = 204
   \<and> status (fst (handleRequest example_engine (example_env 0) (\<lambda>p k. Aborted) 30000
      (example_request ''GET'' '''' ''''))) = 405
   \<and> status (fst (handleRequest example_engine (example_env 10) (\<lambda>p k. Aborted) 30000
      (example_request ''POST'' ''application/json'' ''{"number":"081234567890"}''))) = 200
   \<and> status (fst (handleRequest example_engine (example_env 0) (\<lambda>p k. Aborted) 30000
      (example_request ''POST'' ''text/plain'' ''{"number":"081234567890"}''))) = 400
   \<and> status (fst (handleRequest example_engine (example_env 0) (\<lambda>p k. Aborted) 30000
      (example_request ''POST'' ''application/json'' ''''))) = 400
   \<and> status (fst (handleRequest example_engine (example_env 0) (\<lambda>p k. Aborted) 30000
      (example_request ''POST'' ''application/json'' ''{''))) = 400
   \<and> status (fst (handleRequest example_engine (example_env 0) (\<lambda>p k. Aborted) 30000
      (example_request ''POST'' ''application/json'' ''{}''))) = 400
   \<and> status (fst (handleRequest example_engine (example_env 0\<lparr>STARSENDER_DEVICE_KEY := None\<rparr>)
      (\<lambda>p k. Aborted) 30000
      (example_request ''POST'' ''application/json'' ''{"number":"081234567890"}''))) = 500
   \<and> status (fst (handleRequest example_engine (example_env 0) (\<lambda>p k. Aborted) 30000
      (example_request ''POST'' ''application/json'' ''{"number":"081234567890"}''))) = 504
   \<and> status (fst (handleRequest example_engine (example_env 0)
      (\<lambda>p k. Responded 500 ''Internal Server Error'' '''') 30000
      (example_request ''POST'' ''application/json'' ''{"number":"081234567890"}''))) = 502
   \<and> status (fst (handleRequest example_engine (example_env 0)
      (\<lambda>p k. Responded 200 ''OK'' ''<html></html>'') 30000
      (example_request ''POST'' ''application/json'' ''{"number":"081234567890"}''))) = 502
   \<and> fst (handleRequest example_engine (example_env 0)
      (\<lambda>p k. if p = ''+6281234567890'' \<and> k = ''key'' then Responded 200 ''OK'' ''{}''
              else Aborted) 30000
      (example_request ''POST'' ''application/json'' ''{"number":"081234567890"}''))
      = \<lparr>status = 200, body = Data (Some JUndefined), allow_origin = ''*''\<rparr>\<close>
proof -
  let ?ok = \<open>example_request ''POST'' ''application/json'' ''{"number":"081234567890"}''\<close>
  have parse: \<open>JSON_parse example_engine ''{"number":"081234567890"}''
      = Inr (Some (JStr ''081234567890''))\<close>
    \<open>JSON_parse example_engine ''{}'' = Inr (Some JUndefined)\<close>
    \<open>JSON_parse example_engine ''{'' = Inl ''Unexpected token''\<close>
    \<open>JSON_parse example_engine '''' = Inl ''Unexpected token''\<close>
    \<open>number_of example_engine = (\<lambda>d. case d of None \<Rightarrow> Inl ''Cannot read properties of null''
                             | Some v \<Rightarrow> Inr v)\<close>
    by (simp_all add: example_engine_def)
  have req: "http_method (example_request m ct b) = m"
    "content_type (example_request m ct b) = Some ct"
    "body_text (example_request m ct b) = b"
    "origin_header (example_request m ct b) = None" for m ct b
    by (simp_all add: example_request_def)
  have sent: "sent_number (JStr ''081234567890'') = ''+6281234567890''"
    by (simp add: sent_number_def formatPhoneNumber_def strip_non_phone_def trim_def
        phone_char_def is_digit_def is_space_def startsWith_def)
  have key: "key_missing (example_env 0) = False" "api_key (example_env 0) = ''key''"
    "key_missing (example_env 0\<lparr>STARSENDER_DEVICE_KEY := None\<rparr>) = True"
    by (simp_all add: key_missing_def api_key_def example_env_def)
  have call: "callStarsenderAPI example_engine (Responded 200 ''OK'' ''{}'')
      = Inr (Some JUndefined, 200)"
    by (simp add: callStarsenderAPI_def response_ok_def parse startsWith_def)
  have pr: "parseRequestBody example_engine ?ok = Inr (Some (JStr ''081234567890''))"
    by (simp add: parseRequestBody_def req or_else_def startsWith_def parse)
  note w = worker_status [where E = example_engine and now = 30000]
  have 1: "status (fst (handleRequest example_engine (example_env 0) (\<lambda>p k. Aborted) 30000
      (example_request ''OPTIONS'' '''' ''''))) = 204"
    using w [of "example_env 0" "\<lambda>p k. Aborted" "example_request ''OPTIONS'' '''' ''''"]
    by (simp add: req)
  have 2: "status (fst (handleRequest example_engine (example_env 0) (\<lambda>p k. Aborted) 30000
      (example_request ''GET'' '''' ''''))) = 405"
    using w [of "example_env 0" "\<lambda>p k. Aborted" "example_request ''GET'' '''' ''''"]
    by (simp add: req)
  have 3: "status (fst (handleRequest example_engine (example_env 10) (\<lambda>p k. Aborted) 30000
      ?ok)) = 200"
    using w [of "example_env 10" "\<lambda>p k. Aborted" ?ok]
    by (simp add: req example_refused)
  have 4: \<open>status (fst (handleRequest example_engine (example_env 0) (\<lambda>p k. Aborted) 30000
      (example_request ''POST'' ''text/plain'' ''{"number":"081234567890"}''))) = 400\<close>
    using w [of "example_env 0" "\<lambda>p k. Aborted"
        \<open>example_request ''POST'' ''text/plain'' ''{"number":"081234567890"}''\<close>]
    by (simp add: req example_refused or_else_def startsWith_def)
  have 5: "status (fst (handleRequest example_engine (example_env 0) (\<lambda>p k. Aborted) 30000
      (example_request ''POST'' ''application/json'' ''''))) = 400"
    using w [of "example_env 0" "\<lambda>p k. Aborted"
        "example_request ''POST'' ''application/json'' ''''"]
    by (simp add: req example_refused or_else_def startsWith_def)
  have 6: "status (fst (handleRequest example_engine (example_env 0) (\<lambda>p k. Aborted) 30000
      (example_request ''POST'' ''application/json'' ''{''))) = 400"
    using w [of "example_env 0" "\<lambda>p k. Aborted"
        "example_request ''POST'' ''application/json'' ''{''"]
    by (simp add: req example_refused or_else_def startsWith_def parse)
  have 7: "status (fst (handleRequest example_engine (example_env 0) (\<lambda>p k. Aborted) 30000
      (example_request ''POST'' ''application/json'' ''{}''))) = 400"
    using w [of "example_env 0" "\<lambda>p k. Aborted"
        "example_request ''POST'' ''application/json'' ''{}''"]
    by (simp add: req example_refused or_else_def startsWith_def parse)
  have 8: "status (fst (handleRequest example_engine
      (example_env 0\<lparr>STARSENDER_DEVICE_KEY := None\<rparr>) (\<lambda>p k. Aborted) 30000 ?ok)) = 500"
    using w [of "example_env 0\<lparr>STARSENDER_DEVICE_KEY := None\<rparr>" "\<lambda>p k. Aborted" ?ok]
    by (simp add: req example_refused or_else_def startsWith_def parse key)
  have 9: "status (fst (handleRequest example_engine (example_env 0) (\<lambda>p k. Aborted) 30000
      ?ok)) = 504"
    using w [of "example_env 0" "\<lambda>p k. Aborted" ?ok]
    by (simp add: req example_refused or_else_def startsWith_def parse key)
  have 10: "status (fst (handleRequest example_engine (example_env 0)
      (\<lambda>p k. Responded 500 ''Internal Server Error'' '''') 30000 ?ok)) = 502"
    using w [of "example_env 0" "\<lambda>p k. Responded 500 ''Internal Server Error'' ''''" ?ok]
    by (simp add: req example_refused or_else_def startsWith_def parse key response_ok_def)
  have 11: "status (fst (handleRequest example_engine (example_env 0)
      (\<lambda>p k. Responded 200 ''OK'' ''<html></html>'') 30000 ?ok)) = 502"
    using w [of "example_env 0" "\<lambda>p k. Responded 200 ''OK'' ''<html></html>''" ?ok]
    by (simp add: req example_refused or_else_def startsWith_def parse key response_ok_def)
  have 12: "fst (handleRequest example_engine (example_env 0)
      (\<lambda>p k. if p = ''+6281234567890'' \<and> k = ''key'' then Responded 200 ''OK'' ''{}''
              else Aborted) 30000 ?ok)
      = \<lparr>status = 200, body = Data (Some JUndefined), allow_origin = ''*''\<rparr>"
    using w [of "example_env 0"
        "\<lambda>p k. if p = ''+6281234567890'' \<and> k = ''key'' then Responded 200 ''OK'' ''{}''
              else Aborted" ?ok] call
    by (simp add: req example_refused or_else_def parse key pr sent null_body_status_def)
  show ?thesis
    using 1 2 3 4 5 6 7 8 9 10 11 12 by simp
qed

theorem worker_status_counterexample:
  "http_method (example_request ''POST'' ''text/plain'' ''hello'') = ''POST''
   \<and> content_type (example_request ''POST'' ''text/plain'' ''hello'') = Some ''text/plain''
   \<and> status (fst (handleRequest example_engine (example_env 10) (\<lambda>p k. Aborted) 30000
        (example_request ''POST'' ''text/plain'' ''hello''))) = 200"
  by (simp add: handleRequest_def Let_def WHITELISTED_IPS_def example_env_def example_rate_key
      checkRateLimit_def getCount_def PER_MINUTE_def json_response_def)
    (simp add: example_request_def)

section \<open>The WhatsApp validator: an idle queue\<close>

lemma call_onComplete_idle:
  assumes "queue (queueManager s) = []"
  shows "call_onComplete h now s
    = (if h then s\<lparr>queueManager := (queueManager s)\<lparr>activeCount := activeCount (queueManager s) - 1\<rparr>\<rparr>
       else s)"
  using assms by (simp add: call_onComplete_def job_done_def process_def)

section \<open>Submission gating\<close>

text \<open>
  Claim C3, as amended. A submission attempt is stopped (\<^verbatim>\<open>preventDefault\<close>,
  \<^verbatim>\<open>stopPropagation\<close>, the blocking message scheduled), by the form's submit handler and
  by the submit button's click handler alike: in the email validator if and only if
  \<^verbatim>\<open>validationState === false\<close>; in the WhatsApp validator if and only if
  \<^verbatim>\<open>validationState === false\<close> and the validator is neither in failsafe mode nor
  holding a retry controller while retrying. In every other case neither handler
  intercepts the event, and the handler leaves the validator as it is, except that the
  WhatsApp handlers, when they find a retry with a controller, drop it and activate the
  failsafe. When it stops the event, the email handler schedules the message, the
  icon's removal and the button's disabling; the WhatsApp handler schedules the message
  and gives the input the focus. The Enter key in the phone field has its default
  prevented in every state, so that it never submits the form.
\<close>

theorem submit_gating:
  "snd (handleSubmit es) = (e_validationState (e_state es) = Some False)
   \<and> snd (e_handleSubmitClick es) = (e_validationState (e_state es) = Some False)
   \<and> fst (handleSubmit es)
       = (if e_validationState (e_state es) = Some False
          then es\<lparr>e_scheduled := e_scheduled es
                 @ [EmailSubmitError, EmailIcon IconNone, EmailSubmit Disable]\<rparr>
          else es)
   \<and> e_handleSubmitClick es = handleSubmit es
   \<and> snd (handleFormSubmit s)
       = (validationState (state s) = Some False \<and> \<not> failsafeMode (state s)
          \<and> \<not> (isRetrying (state s) \<and> retryController (state s) \<noteq> None))
   \<and> snd (submit_event s) = snd (handleFormSubmit s)
   \<and> handleSubmitClick s = handleFormSubmit s
   \<and> fst (handleFormSubmit s)
       = (if isRetrying (state s) \<and> retryController (state s) \<noteq> None
          then activateFailsafe
                 (s\<lparr>state := (state s)\<lparr>retryController := None, isRetrying := False\<rparr>\<rparr>)
          else if validationState (state s) = Some False \<and> \<not> failsafeMode (state s)
          then input_focus (s\<lparr>updateQueue := updateQueue s @ [SubmitErrorUpdate]\<rparr>)
          else s)
   \<and> snd (handleKeypress now s)"
  by (cases "retryController (state s)")
    (simp_all add: handleSubmit_def e_handleSubmitClick_def e_showValidationError_def
      e_updateSubmitButton_def e_updateInputIcon_def handleFormSubmit_def
      handleSubmitClick_def submit_event_def showValidationError_def schedule_def
      handleKeypress_def Let_def)

text \<open>
  The claim as stated fails for the WhatsApp validator. A first number is found invalid;
  the user types a second one, whose three attempts fail, so that the failsafe is
  activated: until the next animation frame the state is still invalid, and neither
  handler stops a submission. And after a number has been found valid, the Enter key in
  the field still has its default prevented.
\<close>

theorem submit_gating_counterexample:
  "(let s = wa_run (new_wa_sys default_wa_config False [] 0)
      [(0, Focus), (1, Edit ''081234567890''), (1001, DebounceFires),
       (1500, Reply ''+6281234567890'' (ApiData (Some (JBool False)) JUndefined)),
       (1516, Frame), (1532, Frame),
       (5000, Edit ''081234567891''), (6000, DebounceFires),
       (6100, Fails ''+6281234567891''), (9100, RetryFires 0),
       (9200, Fails ''+6281234567891''), (14200, RetryFires 0),
       (14300, Fails ''+6281234567891'')];
        t = wa_run (new_wa_sys default_wa_config False [] 0)
      [(0, Focus), (1, Edit ''081234567890''), (1001, DebounceFires),
       (1500, Reply ''+6281234567890'' (ApiData (Some (JBool True)) JUndefined)),
       (1516, Frame), (1532, Frame)]
    in validationState (state s) = Some False
     \<and> failsafeMode (state s)
     \<and> snd (handleFormSubmit s) = False
     \<and> snd (handleSubmitClick s) = False
     \<and> validationState (state t) = Some True
     \<and> snd (handleKeypress 2000 t))"
  by code_simp

section \<open>The failsafe of the WhatsApp validator\<close>



















section \<open>Timeouts and retries of the WhatsApp validator\<close>

lemma custom_timeout_wins:
  "request_timeout cfg n (Some (getOptimalTimeout q)) = getOptimalTimeout q"
  by (cases q) (simp_all add: request_timeout_def)

lemma requests_kept:
  "requests (updateUI v m l s) = requests s"
  "requests (updateInputIcon i s) = requests s"
  "requests (updateSubmitButton a s) = requests s"
  "requests (activateFailsafe s) = requests s"
  "requests (handleValidationResult r p s) = requests s"
  "requests (captureError s) = requests s"
  by (simp_all add: updateUI_def updateInputIcon_def updateSubmitButton_def
      activateFailsafe_def handleValidationResult_def schedule_def captureError_def
      handleGracefulDegradation_def Let_def)

lemma send_request_requests:
  "requests (fst (send_request n h raw s)) = requests s
   \<or> requests (fst (send_request n h raw s))
       = requests s @ [\<lparr>req_phone = normalize raw, req_attempt = n,
                       req_timeout = getOptimalTimeout (connectionQuality s)\<rparr>]"
  by (simp add: send_request_def Let_def makeRequest_def updateUI_def schedule_def
      custom_timeout_wins)

lemma after_cache_requests:
  "requests (fst (after_cache n h now raw c s)) = requests s
   \<or> requests (fst (after_cache n h now raw c s))
       = requests s @ [\<lparr>req_phone = normalize raw, req_attempt = n,
                       req_timeout = getOptimalTimeout (connectionQuality s)\<rparr>]"
proof (cases "c \<noteq> CNull \<and> n = 0")
  case True
  then show ?thesis
    by (cases c) (simp_all add: after_cache_def requests_kept)
next
  case False
  obtain allowed s1 where a: "(if n = 0 then canMakeRequest now s else (True, s)) = (allowed, s1)"
    by force
  then have s1: "requests s1 = requests s" "connectionQuality s1 = connectionQuality s"
    by (auto simp: canMakeRequest_def Let_def split: if_splits)
  obtain within s2 where b: "incrementRequest now s1 = (within, s2)"
    by force
  then have s2: "requests s2 = requests s" "connectionQuality s2 = connectionQuality s"
    using s1 by (auto simp: incrementRequest_def Let_def split: if_splits)
  have "after_cache n h now raw c s
      = (if \<not> allowed
           then (updateUI (Some False) (RATE_LIMIT_MESSAGE (config s1)) False s1, True)
         else if \<not> within
           then (updateUI (Some False)
                   ''Terlalu banyak validasi. Silakan tunggu sebentar.'' False s2, True)
         else send_request n h raw s2)"
    unfolding after_cache_def if_not_P [OF False] a prod.case b by simp
  then show ?thesis
    using send_request_requests [of n h raw s2] s1 s2 by (auto simp: requests_kept)
qed

lemma validateWhatsApp_requests:
  "requests (fst (validateWhatsApp n h now s)) = requests s
   \<or> requests (fst (validateWhatsApp n h now s))
       = requests s @ [\<lparr>req_phone = normalize (trim (input_value (ui s))), req_attempt = n,
                       req_timeout = getOptimalTimeout (connectionQuality s)\<rparr>]"
proof -
  obtain d s' where g: "handleGracefulDegradation s = (d, s')"
    by force
  then have s': "requests s' = requests s" "connectionQuality s' = connectionQuality s"
    "ui s' = ui s"
    by (auto simp: handleGracefulDegradation_def split: if_splits)
  define s1 where "s1 = (if failsafeMode (state s') \<and> n = 0
                  then s'\<lparr>state := (state s')\<lparr>failsafeMode := False\<rparr>\<rparr> else s')"
  have s1: "requests s1 = requests s" "connectionQuality s1 = connectionQuality s"
    "ui s1 = ui s"
    using s' by (simp_all add: s1_def)
  define raw where "raw = trim (input_value (ui s1))"
  obtain c m st where cg: "cache_get (CACHE (config s1)) ''__wa_test__'' (storage_writable s1)
      now raw (cacheManager s1) (localStorage s1) = (c, m, st)"
    by (metis prod_cases3)
  define s2 where "s2 = s1\<lparr>cacheManager := m, localStorage := st\<rparr>"
  have s2: "requests s2 = requests s" "connectionQuality s2 = connectionQuality s"
    using s1 by (simp_all add: s2_def)
  define r where "r = validateWhatsApp n h now s"
  have "requests (fst r) = requests s \<or> r = after_cache n h now raw c s2"
    unfolding r_def validateWhatsApp_def g prod.case Let_def s1_def [symmetric]
      raw_def [symmetric] cg s2_def [symmetric]
    by (simp add: requests_kept s1(1) s'(1))
  then show ?thesis
    using after_cache_requests [of n h now raw c s2] s2 s1(3)
    by (auto simp: raw_def r_def)
qed

lemma queueManager_kept:
  "queueManager (updateUI v m l s) = queueManager s"
  "queueManager (updateInputIcon i s) = queueManager s"
  "queueManager (updateSubmitButton a s) = queueManager s"
  "queueManager (activateFailsafe s) = queueManager s"
  "queueManager (handleValidationResult r p s) = queueManager s"
  "queueManager (captureError s) = queueManager s"
  by (simp_all add: updateUI_def updateInputIcon_def updateSubmitButton_def
      activateFailsafe_def handleValidationResult_def schedule_def captureError_def
      handleGracefulDegradation_def Let_def)

lemma send_request_queue:
  "queueManager (fst (send_request n h raw s)) = queueManager s"
  by (simp add: send_request_def Let_def makeRequest_def updateUI_def schedule_def)

lemma after_cache_queue:
  "queueManager (fst (after_cache n h now raw c s)) = queueManager s"
proof (cases "c \<noteq> CNull \<and> n = 0")
  case True
  then show ?thesis
    by (cases c) (simp_all add: after_cache_def queueManager_kept)
next
  case False
  obtain allowed s1 where a: "(if n = 0 then canMakeRequest now s else (True, s)) = (allowed, s1)"
    by force
  then have s1: "queueManager s1 = queueManager s"
    by (auto simp: canMakeRequest_def Let_def split: if_splits)
  obtain within s2 where b: "incrementRequest now s1 = (within, s2)"
    by force
  then have s2: "queueManager s2 = queueManager s"
    using s1 by (auto simp: incrementRequest_def Let_def split: if_splits)
  have "after_cache n h now raw c s
      = (if \<not> allowed
           then (updateUI (Some False) (RATE_LIMIT_MESSAGE (config s1)) False s1, True)
         else if \<not> within
           then (updateUI (Some False)
                   ''Terlalu banyak validasi. Silakan tunggu sebentar.'' False s2, True)
         else send_request n h raw s2)"
    unfolding after_cache_def if_not_P [OF False] a prod.case b by simp
  then show ?thesis
    using s1 s2 by (simp add: queueManager_kept send_request_queue)
qed

lemma validateWhatsApp_queue:
  "queueManager (fst (validateWhatsApp n h now s)) = queueManager s"
proof -
  obtain d s' where g: "handleGracefulDegradation s = (d, s')"
    by force
  then have s': "queueManager s' = queueManager s"
    by (auto simp: handleGracefulDegradation_def split: if_splits)
  define s1 where "s1 = (if failsafeMode (state s') \<and> n = 0
                  then s'\<lparr>state := (state s')\<lparr>failsafeMode := False\<rparr>\<rparr> else s')"
  have s1: "queueManager s1 = queueManager s"
    using s' by (simp_all add: s1_def)
  define raw where "raw = trim (input_value (ui s1))"
  obtain c m st where cg: "cache_get (CACHE (config s1)) ''__wa_test__'' (storage_writable s1)
      now raw (cacheManager s1) (localStorage s1) = (c, m, st)"
    by (metis prod_cases3)
  define s2 where "s2 = s1\<lparr>cacheManager := m, localStorage := st\<rparr>"
  have s2: "queueManager s2 = queueManager s"
    using s1 by (simp_all add: s2_def)
  define r where "r = validateWhatsApp n h now s"
  have "queueManager (fst r) = queueManager s \<or> r = after_cache n h now raw c s2"
    unfolding r_def validateWhatsApp_def g prod.case Let_def s1_def [symmetric]
      raw_def [symmetric] cg s2_def [symmetric]
    by (simp add: queueManager_kept s1 s')
  then show ?thesis
    using after_cache_queue [of n h now raw c s2] s2
    by (auto simp: r_def)
qed

lemma request_failed_retry:
  assumes "attempt j < 2"
  shows "retry_timers (request_failed now j s)
      = retry_timers s @ [(j, index (RETRY_DELAYS (config s)) (attempt j))]"
    and "isRetrying (state (request_failed now j s))"
    and "requests (request_failed now j s) = requests s"
  using assms
  by (simp_all add: request_failed_def Let_def captureError_def handleGracefulDegradation_def)

lemma retry_fires_changed:
  assumes "queue (queueManager s) = []" and "k < length (retry_timers s)"
    and "trim (input_value (ui s)) \<noteq> rawValue (fst (retry_timers s ! k))"
  shows "requests (retry_fires k now s) = requests s"
    and "validationState (state (retry_fires k now s)) = validationState (state s)"
    and "\<not> isRetrying (state (retry_fires k now s))"
    and "retry_timers (retry_fires k now s)
      = take k (retry_timers s) @ drop (Suc k) (retry_timers s)"
  using assms
  by (simp_all add: retry_fires_def Let_def call_onComplete_idle updateInputIcon_def
      schedule_def)

lemma retry_fires_unchanged:
  assumes q: "queue (queueManager s) = []" and k: "k < length (retry_timers s)"
    and v: "trim (input_value (ui s)) = rawValue (fst (retry_timers s ! k))"
  shows "requests (retry_fires k now s) = requests s
    \<or> requests (retry_fires k now s)
       = requests s @ [\<lparr>req_phone = normalize (rawValue (fst (retry_timers s ! k))),
                        req_attempt = attempt (fst (retry_timers s ! k)) + 1,
                        req_timeout = getOptimalTimeout (connectionQuality s)\<rparr>]"
proof -
  define j where "j = fst (retry_timers s ! k)"
  define s1 where "s1 = s\<lparr>retry_timers := take k (retry_timers s) @ drop (Suc k) (retry_timers s)\<rparr>"
  obtain s2 ended where r: "validateWhatsApp (attempt j + 1) (onComplete j) now s1 = (s2, ended)"
    by force
  have e: "retry_fires k now s = (if ended then call_onComplete (onComplete j) now s2 else s2)"
    using k v r by (simp add: retry_fires_def Let_def j_def s1_def)
  have "queueManager s2 = queueManager s"
    using validateWhatsApp_queue [of "attempt j + 1" "onComplete j" now s1] r
    by (simp add: s1_def)
  then have "requests (retry_fires k now s) = requests s2"
    using e q by (simp add: call_onComplete_idle)
  then show ?thesis
    using validateWhatsApp_requests [of "attempt j + 1" "onComplete j" now s1] r v
    by (auto simp: s1_def j_def)
qed

text \<open>
  Claim C5 fails on the WhatsApp validator for the timeout. \<^verbatim>\<open>validateWhatsApp\<close> hands
  \<^verbatim>\<open>makeRequest\<close> the network monitor's timeout (lines 2239 to 2245), and
  \<^verbatim>\<open>executeRequest\<close> reads \<^verbatim>\<open>CONFIG.TIMEOUTS[attemptNumber]\<close> only when it is handed none
  (line 1270), so the table is never reached (\<open>validateWhatsApp_requests\<close>), although
  the run's own log message reports the timeout as \<^verbatim>\<open>CONFIG.TIMEOUTS[attemptNumber]\<close>
  (line 2288). With the default configuration and a good connection the call of
  attempt 0 is armed with 7000 ms, where the table says 10000 ms; on a poor connection
  the call of attempt 1 is armed with 15000 ms, where the table says 7000 ms. The retry
  half of the claim holds (\<open>request_failed_retry\<close>, \<open>retry_fires_changed\<close>,
  \<open>retry_fires_unchanged\<close>).
\<close>

theorem timeout_table_ignored:
  "(let s = wa_run (new_wa_sys default_wa_config False [] 0)
        [(0, Focus), (1, Edit ''081234567890''), (1001, DebounceFires)];
        t = wa_run (new_wa_sys default_wa_config False [] 0)
        [(0, SetQuality Poor), (0, Focus), (1, Edit ''081234567890''), (1001, DebounceFires),
         (16001, Fails ''+6281234567890''), (19001, RetryFires 0)]
    in requests s = [\<lparr>req_phone = ''+6281234567890'', req_attempt = 0, req_timeout = 7000\<rparr>]
     \<and> index (TIMEOUTS (config s)) 0 = Some 10000
     \<and> requests t = [\<lparr>req_phone = ''+6281234567890'', req_attempt = 1, req_timeout = 15000\<rparr>]
     \<and> index (TIMEOUTS (config t)) 1 = Some 7000)"
  by code_simp

section \<open>A verdict that arrives after the input has changed\<close>

text \<open>
  The email validator reads the input again when its \<^verbatim>\<open>fetch\<close> returns (lines 426 to
  430) and drops the verdict of a value that is no longer in the field.
\<close>

lemma email_stale_result_dropped:
  assumes "k < length (fetches s)" and "job_email (fetches s ! k) \<noteq> trim (e_input s)"
  shows "fetch_returns k (ReplyData r d) now s
    = e_discard now (s\<lparr>fetches := take k (fetches s) @ drop (Suc k) (fetches s)\<rparr>)"
  using assms by (auto simp: fetch_returns_def Let_def)

text \<open>
  Claim C1 fails on the WhatsApp validator. After \<^verbatim>\<open>await makeRequest\<close> (lines 2240 to
  2260) the run passes the verdict to \<^verbatim>\<open>handleValidationResult\<close> without reading the
  input again. Here the check of \<^verbatim>\<open>081234567890\<close> is in flight, the user changes the
  field to \<^verbatim>\<open>081234567891\<close>, and the answer "not registered" for the old number
  arrives: the stored state becomes invalid, the error message is shown, the submit
  button is disabled and a submission is stopped, all for a value that was never
  checked.
\<close>

theorem stale_verdict_applied:
  "(let s = wa_run (new_wa_sys default_wa_config False [] 0)
      [(0, Focus), (1, Edit ''081234567890''), (1001, DebounceFires),
       (1500, Edit ''081234567891''),
       (2000, Reply ''+6281234567890'' (ApiData (Some (JBool False)) JUndefined)),
       (2016, Frame), (2032, Frame)]
    in input_value (ui s) = ''081234567891''
     \<and> validationState (state s) = Some False
     \<and> lastCheckedNumber (state s) = ''+6281234567890''
     \<and> message (ui s) = Some ''No. WhatsApp yang Anda masukkan salah''
     \<and> submit_disabled (ui s)
     \<and> snd (handleFormSubmit s))"
  by code_simp

section \<open>Network calls for one value\<close>

text \<open>
  The WhatsApp validator's \<^verbatim>\<open>RequestManager.makeRequest\<close> keeps a map of the calls in
  progress: a run for a number that has one waits for it and starts none.
\<close>

lemma makeRequest_shares:
  assumes "phone j \<in> set (activeRequests s)"
  shows "requests (makeRequest j t s) = requests s"
    and "activeRequests (makeRequest j t s) = activeRequests s"
    and "awaiting (makeRequest j t s) = awaiting s @ [j]"
  using assms by (simp_all add: makeRequest_def)

text \<open>
  Claim C2 fails on the email validator. Its only guard against a second call is in
  \<^verbatim>\<open>queueValidation\<close> (lines 376 to 382): \<^verbatim>\<open>isValidating\<close> with \<^verbatim>\<open>activeEmail\<close>, one slot
  for all runs, which the \<^verbatim>\<open>finally\<close> of any run clears (lines 478 to 481). Here the
  call for \<^verbatim>\<open>a@x.com\<close> is in flight, the user types \<^verbatim>\<open>b@x.com\<close>, whose check ends, and
  then types \<^verbatim>\<open>a@x.com\<close> again: a second call for \<^verbatim>\<open>a@x.com\<close> starts while the first
  has not returned.
\<close>

theorem duplicate_fetch:
  "fetches (email_run (new_email_sys (\<lambda>v. True) [])
     [(0, EEdit ''a@x.com''), (800, EDebounceFires),
      (900, EEdit ''b@x.com''), (1700, EDebounceFires),
      (1800, FetchReturns 1 (ReplyData ''valid'' None)),
      (1900, EEdit ''a@x.com''), (2700, EDebounceFires)])
   = [\<lparr>job_email = ''a@x.com'', round = 0\<rparr>, \<lparr>job_email = ''a@x.com'', round = 0\<rparr>]"
  by code_simp

end
